theory Spec2Isabelle
  imports Complex_Main
begin

section \<open>Numbers and text shared by the agents\<close>

text \<open>
  The Go sources compute prices, quantities and confidences in \<^verbatim>\<open>float64\<close>.
  Two embeddings of these numbers are used.  Where a number is compared, stored or handed
  on (the risk gate, the planner, the holdings, the fields of an order) it is a
  \<^typ>\<open>real\<close>: comparisons, \<^verbatim>\<open>math.Min\<close> and \<^verbatim>\<open>math.Abs\<close> are the exact
  operations, \<open>+\<close>, \<open>-\<close>, \<open>*\<close>, \<open>/\<close> are carried out without rounding, every such
  division has a divisor that is not zero, and NaN and the infinities do not occur.
  Where the digits of a result are what is asked for (the moving averages of the
  indicator kit, the order quantity that an executor floors and prints) the numbers are
  binary64 values and every operation rounds as IEEE-754 prescribes; that arithmetic is
  the second section.  Go strings are byte strings, \<^typ>\<open>string\<close>; the non-ASCII
  message texts of the sources are written as their UTF-8 bytes.
\<close>

definition utf8 :: "nat list \<Rightarrow> string" where
  "utf8 bs = map char_of bs"

text \<open>
  \<^verbatim>\<open>strconv.FormatFloat(x, 'f', d, 64)\<close> prints \<open>x\<close> rounded to \<open>d\<close> fraction digits
  (ties to even).  A printed number is kept as its sign, the scaled magnitude and the
  number of fraction digits; \<open>render\<close> gives the characters.
\<close>

definition round_half_even :: "real \<Rightarrow> int" where
  "round_half_even x =
     (let f = \<lfloor>x\<rfloor>; r = x - of_int f
      in if r < 1/2 then f else if 1/2 < r then f + 1 else if even f then f else f + 1)"

record decimal =
  negative :: bool
  magnitude :: nat
  decimals :: nat

definition FormatFloat_f :: "real \<Rightarrow> nat \<Rightarrow> decimal" where
  "FormatFloat_f x d =
     \<lparr>negative = (x < 0), magnitude = nat (round_half_even (\<bar>x\<bar> * 10 ^ d)), decimals = d\<rparr>"

definition ParseFloat :: "decimal \<Rightarrow> real" where
  "ParseFloat s =
     (if negative s then - 1 else 1) * real (magnitude s) / 10 ^ decimals s"

fun nat_digits :: "nat \<Rightarrow> string" where
  "nat_digits n =
     (if n < 10 then [char_of (48 + n)]
      else nat_digits (n div 10) @ [char_of (48 + n mod 10)])"

definition pad_digits :: "nat \<Rightarrow> string \<Rightarrow> string" where
  "pad_digits d s = replicate (d - length s) (CHR ''0'') @ s"

definition render :: "decimal \<Rightarrow> string" where
  "render s =
     (if negative s then ''-'' else '''') @
     nat_digits (magnitude s div 10 ^ decimals s) @
     (if decimals s = 0 then ''''
      else ''.'' @ pad_digits (decimals s) (nat_digits (magnitude s mod 10 ^ decimals s)))"

definition fmt2 :: "real \<Rightarrow> string" where
  "fmt2 x = render (FormatFloat_f x 2)"

section \<open>Binary64 arithmetic\<close>

text \<open>
  A \<^verbatim>\<open>float64\<close> is a finite number, an infinity or NaN.  The sign of a zero is not
  kept: \<open>Fin 0\<close> stands for both zeros, and a division by it takes it for the positive
  one.  Only some reals are binary64 numbers; every rounded operation below returns one
  of them, and the floor and the negation of one is one.

  The binary64 numbers around a magnitude \<open>a\<close> are the multiples of \<open>2 ^ e\<close>, where
  \<open>e\<close> is the least exponent from \<open>-1074\<close> on with \<open>a < 2 ^ (e + 53)\<close>: 53 bits of
  significand, and the fixed spacing \<open>2 ^ -1074\<close> of the subnormal numbers at the bottom.
  \<open>f64_exponent\<close> finds \<open>e\<close> by counting up; \<open>round_f64\<close> rounds a real to the
  nearest multiple, ties to the even one, and to an infinity when that multiple has left
  the range.
\<close>

datatype f64 = Fin real | PosInf | NegInf | NaN

fun exp_search :: "nat \<Rightarrow> int \<Rightarrow> real \<Rightarrow> int" where
  "exp_search 0 e a = e"
| "exp_search (Suc n) e a = (if 2 powi (e + 53) \<le> a then exp_search n (e + 1) a else e)"

definition f64_exponent :: "real \<Rightarrow> int" where
  "f64_exponent a = exp_search 2046 (- 1074) a"

definition round_f64 :: "real \<Rightarrow> f64" where
  "round_f64 x =
     (let e = f64_exponent \<bar>x\<bar>;
          y = of_int (round_half_even (\<bar>x\<bar> / 2 powi e)) * 2 powi e
      in if 2 powi 1024 \<le> y then (if x < 0 then NegInf else PosInf)
         else Fin (if x < 0 then - y else y))"

text \<open>
  The operations of the Go compiler on \<^verbatim>\<open>float64\<close>: the exact result, rounded.  Each
  operation is rounded by itself; a multiplication and an addition are not fused.
\<close>

definition f64_inf :: "bool \<Rightarrow> f64" where
  "f64_inf neg = (if neg then NegInf else PosInf)"

fun is_neg :: "f64 \<Rightarrow> bool" where
  "is_neg (Fin x) = (x < 0)"
| "is_neg NegInf = True"
| "is_neg PosInf = False"
| "is_neg NaN = False"

fun f64_neg :: "f64 \<Rightarrow> f64" where
  "f64_neg (Fin x) = Fin (- x)"
| "f64_neg PosInf = NegInf"
| "f64_neg NegInf = PosInf"
| "f64_neg NaN = NaN"

fun f64_add :: "f64 \<Rightarrow> f64 \<Rightarrow> f64" where
  "f64_add (Fin a) (Fin b) = round_f64 (a + b)"
| "f64_add NaN b = NaN"
| "f64_add a NaN = NaN"
| "f64_add PosInf NegInf = NaN"
| "f64_add NegInf PosInf = NaN"
| "f64_add PosInf b = PosInf"
| "f64_add NegInf b = NegInf"
| "f64_add (Fin a) b = b"

definition f64_sub :: "f64 \<Rightarrow> f64 \<Rightarrow> f64" where
  "f64_sub a b = f64_add a (f64_neg b)"

definition f64_mul :: "f64 \<Rightarrow> f64 \<Rightarrow> f64" where
  "f64_mul a b =
     (case (a, b) of
        (Fin x, Fin y) \<Rightarrow> round_f64 (x * y)
      | _ \<Rightarrow> if a = NaN \<or> b = NaN \<or> a = Fin 0 \<or> b = Fin 0 then NaN
             else f64_inf (is_neg a \<noteq> is_neg b))"

definition f64_div :: "f64 \<Rightarrow> f64 \<Rightarrow> f64" where
  "f64_div a b =
     (case (a, b) of
        (Fin x, Fin y) \<Rightarrow>
          if y = 0 then (if x = 0 then NaN else f64_inf (x < 0)) else round_f64 (x / y)
      | (Fin x, _) \<Rightarrow> if b = NaN then NaN else Fin 0
      | (_, Fin y) \<Rightarrow> if a = NaN then NaN else f64_inf (is_neg a \<noteq> (y < 0))
      | _ \<Rightarrow> NaN)"

text \<open>\<^verbatim>\<open>math.Floor\<close>, the conversion \<^verbatim>\<open>float64(n)\<close> of an integer, and \<open>\<le>\<close>.\<close>

fun f64_floor :: "f64 \<Rightarrow> f64" where
  "f64_floor (Fin x) = Fin (of_int \<lfloor>x\<rfloor>)"
| "f64_floor a = a"

definition f64_of_int :: "int \<Rightarrow> f64" where
  "f64_of_int n = round_f64 (of_int n)"

fun f64_le :: "f64 \<Rightarrow> f64 \<Rightarrow> bool" where
  "f64_le (Fin a) (Fin b) = (a \<le> b)"
| "f64_le NaN b = False"
| "f64_le a NaN = False"
| "f64_le NegInf b = True"
| "f64_le a PosInf = True"
| "f64_le a b = False"

text \<open>
  \<^verbatim>\<open>strconv.FormatFloat(x, 'f', d, 64)\<close> of a binary64 value and
  \<^verbatim>\<open>strconv.ParseFloat\<close> of what it printed: the digits of a finite value, and the
  words \<^verbatim>\<open>+Inf\<close>, \<^verbatim>\<open>-Inf\<close> and \<^verbatim>\<open>NaN\<close>.
\<close>

datatype printed = Digits decimal | PlusInf | MinusInf | NotANumber

fun FormatFloat64 :: "f64 \<Rightarrow> nat \<Rightarrow> printed" where
  "FormatFloat64 (Fin x) d = Digits (FormatFloat_f x d)"
| "FormatFloat64 PosInf d = PlusInf"
| "FormatFloat64 NegInf d = MinusInf"
| "FormatFloat64 NaN d = NotANumber"

fun ParseFloat64 :: "printed \<Rightarrow> f64" where
  "ParseFloat64 (Digits s) = round_f64 (ParseFloat s)"
| "ParseFloat64 PlusInf = PosInf"
| "ParseFloat64 MinusInf = NegInf"
| "ParseFloat64 NotANumber = NaN"

fun render_printed :: "printed \<Rightarrow> string" where
  "render_printed (Digits s) = render s"
| "render_printed PlusInf = ''+Inf''"
| "render_printed MinusInf = ''-Inf''"
| "render_printed NotANumber = ''NaN''"

section \<open>Domain types (internal/domain/types.go)\<close>

type_synonym Side = string

definition SideLong :: Side where "SideLong = ''long''"
definition SideShort :: Side where "SideShort = ''short''"
definition SideClose :: Side where "SideClose = ''close''"
definition SideNone :: Side where "SideNone = ''none''"

record Signal =
  sig_ID :: string
  sig_CycleID :: string
  sig_Pair :: string
  sig_Side :: Side
  sig_Confidence :: real
  sig_Reason :: string
  sig_Thinking :: string
  sig_PromptTokens :: int
  sig_CompletionTokens :: int
  sig_TotalTokens :: int
  sig_ModelName :: string
  sig_TTLSeconds :: int
  sig_CreatedAt :: nat

record PortfolioState =
  DailyPnLUSDT :: real
  OpenExposureUSDT :: real

record RiskDecision =
  rd_ID :: string
  rd_CycleID :: string
  rd_SignalID :: string
  Approved :: bool
  RejectReason :: string
  MaxStakeUSDT :: real
  rd_CreatedAt :: nat

section \<open>Risk agent (internal/agent/risk/risk.go)\<close>

record RiskInput =
  ri_CycleID :: string
  ri_Signal :: Signal
  ri_Portfolio :: PortfolioState

record RuleAgent =
  maxSingleStakeUSDT :: real
  maxDailyLossUSDT :: real
  maxExposureUSDT :: real
  minConfidence :: real
  ra_tradingMode :: string
  ra_leverage :: int

text \<open>
  \<open>Evaluate\<close> returns the decision and Go's \<^verbatim>\<open>error\<close>, \<open>None\<close> for \<^verbatim>\<open>nil\<close>.
  The fresh id and the clock reading are arguments.  The log line of the futures branch
  changes nothing that is returned.
\<close>

definition Evaluate ::
  "RuleAgent \<Rightarrow> string \<Rightarrow> nat \<Rightarrow> RiskInput \<Rightarrow> RiskDecision \<times> string option" where
  "Evaluate a new_id now input =
     (let decision = \<lparr>rd_ID = new_id, rd_CycleID = ri_CycleID input,
                        rd_SignalID = sig_ID (ri_Signal input), Approved = False,
                        RejectReason = '''', MaxStakeUSDT = 0, rd_CreatedAt = now\<rparr>;
          conf = sig_Confidence (ri_Signal input)
      in if sig_Side (ri_Signal input) = SideNone then
           (decision\<lparr>RejectReason := ''signal side is none''\<rparr>, None)
         else if sig_Side (ri_Signal input) = SideClose then
           (if conf < minConfidence a then
              (decision\<lparr>RejectReason :=
                 ''close signal confidence '' @ fmt2 conf @ '' below min '' @
                 fmt2 (minConfidence a)\<rparr>, None)
            else (decision\<lparr>Approved := True, MaxStakeUSDT := 0\<rparr>, None))
         else if conf < minConfidence a then
           (decision\<lparr>RejectReason :=
              ''signal confidence '' @ fmt2 conf @ '' below min '' @ fmt2 (minConfidence a)\<rparr>,
            None)
         else if DailyPnLUSDT (ri_Portfolio input) \<le> - \<bar>maxDailyLossUSDT a\<bar> then
           (decision\<lparr>RejectReason :=
              ''daily pnl '' @ fmt2 (DailyPnLUSDT (ri_Portfolio input)) @
              '' below max loss limit -'' @ fmt2 \<bar>maxDailyLossUSDT a\<bar>\<rparr>, None)
         else
           (let remainingExposure = maxExposureUSDT a - OpenExposureUSDT (ri_Portfolio input)
            in if remainingExposure \<le> 0 then
                 (decision\<lparr>RejectReason := ''max exposure limit reached''\<rparr>, None)
               else
                 (let decision2 = decision\<lparr>MaxStakeUSDT :=
                                     min (maxSingleStakeUSDT a) remainingExposure\<rparr>
                  in if MaxStakeUSDT decision2 \<le> 0 then
                       (decision2\<lparr>RejectReason := ''computed max stake is zero''\<rparr>, None)
                     else (decision2\<lparr>Approved := True\<rparr>, None))))"

section \<open>Indicator kit (internal/market/indicator.go)\<close>

text \<open>
  Go's \<^verbatim>\<open>int\<close> is 64 bits wide on the targets of the repository; where the code adds
  or multiplies such values the wrap-around is written out.
\<close>

definition wrap64 :: "int \<Rightarrow> int" where
  "wrap64 x = (x + 2 ^ 63) mod 2 ^ 64 - 2 ^ 63"

text \<open>
  The loop \<^verbatim>\<open>for i := 1; i < n; i++\<close> of \<open>EMA\<close>, with \<open>prev = out[i-1]\<close>; the
  prices are binary64 values.
\<close>

fun ema_loop :: "f64 \<Rightarrow> f64 \<Rightarrow> f64 list \<Rightarrow> f64 list" where
  "ema_loop k prev [] = []"
| "ema_loop k prev (x # xs) =
     (let y = f64_add (f64_mul x k) (f64_mul prev (f64_sub (Fin 1) k)) in y # ema_loop k y xs)"

definition EMA :: "f64 list \<Rightarrow> int \<Rightarrow> f64 list" where
  "EMA prices period =
     (let n = int (length prices)
      in if n = 0 \<or> period \<le> 0 then []
         else
           (let k = f64_div (Fin 2) (f64_of_int (wrap64 (period + 1)));
                seedLen = (if n < period then n else period);
                seed = foldl f64_add (Fin 0) (take (nat seedLen) prices);
                out0 = f64_div seed (f64_of_int seedLen)
            in out0 # ema_loop k out0 (tl prices)))"

text \<open>
  \<open>MACD\<close> indexes both averages up to the length of the input; \<open>go_index\<close> is the
  slice read, which panics out of range.
\<close>

definition go_index :: "'a list \<Rightarrow> nat \<Rightarrow> 'a option" where
  "go_index xs i = (if i < length xs then Some (xs ! i) else None)"

fun macd_loop :: "f64 list \<Rightarrow> f64 list \<Rightarrow> nat list \<Rightarrow> f64 list option" where
  "macd_loop e12 e26 [] = Some []"
| "macd_loop e12 e26 (i # is) =
     (case (go_index e12 i, go_index e26 i) of
        (Some a, Some b) \<Rightarrow>
          (case macd_loop e12 e26 is of Some rest \<Rightarrow> Some (f64_sub a b # rest) | None \<Rightarrow> None)
      | _ \<Rightarrow> None)"

definition MACD :: "f64 list \<Rightarrow> f64 list option" where
  "MACD prices =
     (let ema12 = EMA prices 12; ema26 = EMA prices 26; n = length prices
      in macd_loop ema12 ema26 [0..<n])"

section \<open>Position planner (position agent; internal/domain/position_strategy.go)\<close>



definition StrategyDCA :: string where "StrategyDCA = ''dca''"


















section \<open>Orders and holdings (internal/domain/types.go, the SQLite store)\<close>

record Order =
  ord_ID :: string
  ord_CycleID :: string
  ord_SignalID :: string
  ClientOrderID :: string
  ord_Pair :: string
  ord_Side :: Side
  StakeUSDT :: real
  Leverage :: int
  ord_Status :: string
  ExchangeOrderID :: string
  FilledPrice :: real
  FilledQuantity :: real
  RawResponse :: string
  ord_CreatedAt :: nat

record Holding =
  h_ID :: int
  h_Pair :: string
  Symbol :: string
  Quantity :: real
  AvgPrice :: real
  TotalCost :: real
  Source :: string
  UpdatedAt :: nat

text \<open>
  The \<^verbatim>\<open>holdings\<close> table is the list of its rows; \<^verbatim>\<open>pair\<close> is its unique key.
  \<open>UpsertHolding\<close> is the statement \<^verbatim>\<open>INSERT ... ON CONFLICT(pair) DO UPDATE SET\<close>
  of quantity, avg_price, total_cost, source and updated_at; a new row gets the next id.
  \<open>ListHoldings\<close> is \<^verbatim>\<open>WHERE quantity > 0 ORDER BY total_cost DESC\<close>.  Both are
  taken to succeed: the caller below discards their errors.
\<close>

definition UpsertHolding :: "Holding list \<Rightarrow> Holding \<Rightarrow> Holding list" where
  "UpsertHolding tbl h =
     (if \<exists>r\<in>set tbl. h_Pair r = h_Pair h then
        map (\<lambda>r. if h_Pair r = h_Pair h
                  then r\<lparr>Quantity := Quantity h, AvgPrice := AvgPrice h,
                         TotalCost := TotalCost h, Source := Source h,
                         UpdatedAt := UpdatedAt h\<rparr>
                  else r) tbl
      else tbl @ [h\<lparr>h_ID := 1 + foldr (\<lambda>r m. max (h_ID r) m) tbl 0\<rparr>])"

definition ListHoldings :: "Holding list \<Rightarrow> Holding list" where
  "ListHoldings tbl = sort_key (\<lambda>h. - TotalCost h) (filter (\<lambda>h. 0 < Quantity h) tbl)"

text \<open>\<^verbatim>\<open>strings.Split(pair, "/")[0]\<close>: the text before the first slash.\<close>

definition base_symbol :: "string \<Rightarrow> string" where
  "base_symbol pair = takeWhile (\<lambda>c. c \<noteq> CHR ''/'') pair"

text \<open>
  \<open>UpdateHoldingAfterTrade\<close> of the orchestrator, as a function from the table, the
  clock reading and the order to the new table.
\<close>

definition UpdateHoldingAfterTrade :: "Holding list \<Rightarrow> nat \<Rightarrow> Order \<Rightarrow> Holding list" where
  "UpdateHoldingAfterTrade tbl now order =
     (if FilledPrice order \<le> 0 \<or> FilledQuantity order \<le> 0 then tbl
      else
        (let existing = find (\<lambda>h. h_Pair h = ord_Pair order) (ListHoldings tbl);
             symbol = base_symbol (ord_Pair order)
         in if ord_Side order = SideLong then
              (case existing of
                 Some e \<Rightarrow>
                   (let newQty = Quantity e + FilledQuantity order;
                        newCost = TotalCost e + FilledQuantity order * FilledPrice order
                    in UpsertHolding tbl
                         \<lparr>h_ID = 0, h_Pair = ord_Pair order, Symbol = symbol,
                          Quantity = newQty, AvgPrice = newCost / newQty,
                          TotalCost = newCost, Source = ''local'', UpdatedAt = now\<rparr>)
               | None \<Rightarrow>
                   UpsertHolding tbl
                     \<lparr>h_ID = 0, h_Pair = ord_Pair order, Symbol = symbol,
                      Quantity = FilledQuantity order, AvgPrice = FilledPrice order,
                      TotalCost = FilledQuantity order * FilledPrice order,
                      Source = ''local'', UpdatedAt = now\<rparr>)
            else if ord_Side order = SideClose then
              (case existing of
                 Some e \<Rightarrow>
                   (let newQty0 = Quantity e - FilledQuantity order;
                        newQty = (if newQty0 < 0 then 0 else newQty0);
                        ratio0 = FilledQuantity order / Quantity e;
                        ratio = (if 1 < ratio0 then 1 else ratio0);
                        newCost = TotalCost e * (1 - ratio);
                        avgPrice = (if 0 < newQty then newCost / newQty else 0)
                    in UpsertHolding tbl
                         \<lparr>h_ID = 0, h_Pair = ord_Pair order, Symbol = symbol,
                          Quantity = newQty, AvgPrice = avgPrice, TotalCost = newCost,
                          Source = ''local'', UpdatedAt = now\<rparr>)
               | None \<Rightarrow> tbl)
            else tbl))"

text \<open>The row stored for a pair.\<close>

definition holding_of :: "Holding list \<Rightarrow> string \<Rightarrow> Holding option" where
  "holding_of tbl pair = find (\<lambda>h. h_Pair h = pair) tbl"

section \<open>News title sanitizer (market client)\<close>

text \<open>
  \<^verbatim>\<open>strings.NewReplacer(old1, new1, ...).Replace(s)\<close> scans \<open>s\<close> from the left.  At each
  position the keys are compared in argument order; the first key that is a prefix of the
  rest is replaced by its substitute and the scan goes on behind the key, otherwise one
  byte is copied.  Replaced text is not scanned again.  All keys of the sanitizer are
  non-empty; Go's handling of an empty key is not modelled.
\<close>

definition lookup_key :: "(string \<times> string) list \<Rightarrow> string \<Rightarrow> (string \<times> string) option" where
  "lookup_key pairs s = find (\<lambda>kv. take (length (fst kv)) s = fst kv) pairs"

fun replace_all_keys :: "(string \<times> string) list \<Rightarrow> string \<Rightarrow> string" where
  "replace_all_keys pairs [] = []"
| "replace_all_keys pairs (c # cs) =
     (case lookup_key pairs (c # cs) of
        Some kv \<Rightarrow> snd kv @ replace_all_keys pairs (drop (length (fst kv) - 1) cs)
      | None \<Rightarrow> c # replace_all_keys pairs cs)"

definition sanitize_pairs :: "(string \<times> string) list" where
  "sanitize_pairs =
     [(''hack'', ''security incident''), (''Hack'', ''Security Incident''),
      (''HACK'', ''SECURITY INCIDENT''),
      (''scam'', ''fraud risk''), (''Scam'', ''Fraud Risk''), (''SCAM'', ''FRAUD RISK''),
      (''kill'', ''eliminate''), (''Kill'', ''Eliminate''),
      (''attack'', ''incident''), (''Attack'', ''Incident''),
      (''bomb'', ''surge''), (''Bomb'', ''Surge''),
      (''crash'', ''sharp decline''), (''Crash'', ''Sharp Decline''),
      (''drug'', ''substance''), (''Drug'', ''Substance''),
      (''terror'', ''risk event''), (''Terror'', ''Risk Event''),
      (''war'', ''conflict''), (''War'', ''Conflict''),
      (''weapon'', ''tool''), (''Weapon'', ''Tool''),
      (''launder'', ''transfer''), (''Launder'', ''Transfer''),
      (''ponzi'', ''pyramid scheme''), (''Ponzi'', ''Pyramid Scheme'')]"

definition sanitizeNewsTitle :: "string \<Rightarrow> string" where
  "sanitizeNewsTitle title = replace_all_keys sanitize_pairs title"

text \<open>Whether some key occurs somewhere in a string.\<close>

fun has_key :: "(string \<times> string) list \<Rightarrow> string \<Rightarrow> bool" where
  "has_key pairs [] = False"
| "has_key pairs (c # cs) = (lookup_key pairs (c # cs) \<noteq> None \<or> has_key pairs cs)"

text \<open>A key and its substitute differ at a position both have.\<close>

definition differ_early :: "string \<Rightarrow> string \<Rightarrow> bool" where
  "differ_early old new =
     list_ex (\<lambda>i. old ! i \<noteq> new ! i) [0..<min (length old) (length new)]"

section \<open>Cycle list: the store query and the HTTP handler\<close>









section \<open>Signal agent (package signal)\<close>

text \<open>
  \<^verbatim>\<open>strings.TrimSpace\<close> and \<^verbatim>\<open>strings.ToLower\<close> on ASCII text; bytes outside ASCII
  are left as they are.
\<close>

definition is_space :: "char \<Rightarrow> bool" where
  "is_space c = (c = CHR '' '' \<or> (9 \<le> (of_char c :: nat) \<and> (of_char c :: nat) \<le> 13))"

definition TrimSpace :: "string \<Rightarrow> string" where
  "TrimSpace s = rev (dropWhile is_space (rev (dropWhile is_space s)))"

definition to_lower :: "char \<Rightarrow> char" where
  "to_lower c =
     (if 65 \<le> (of_char c :: nat) \<and> (of_char c :: nat) \<le> 90
      then char_of ((of_char c :: nat) + 32) else c)"

definition ToLower :: "string \<Rightarrow> string" where
  "ToLower s = map to_lower s"

record SignalInput =
  si_CycleID :: string
  si_Pair :: string

record llmResponse =
  lr_Signal :: string
  lr_Side :: string
  Coin :: string
  lr_Confidence :: real
  lr_Thinking :: string
  lr_Reason :: string
  Justification :: string
  lr_TTLSeconds :: int

text \<open>
  What the model call returns: an error, or the list of choices.  A choice carries its
  text and the provider's generation info, a map from names to values of any type.
\<close>

datatype any_value = AnyNil | AnyInt int | AnyInt64 int | AnyFloat64 real | AnyOther

record Choice =
  Content :: string
  GenerationInfo :: "(string \<times> any_value) list option"

datatype llm_reply = LLMError string | LLMChoices "Choice list"

definition msg_fallback_prefix :: string where
  "msg_fallback_prefix = utf8 [229, 164, 167, 230, 168, 161, 229, 158, 139, 228, 184, 141, 229,
     143, 175, 231, 148, 168, 239, 188, 140, 232, 135, 170, 229, 138, 168, 232, 183, 179, 232,
     191, 135, 230, 156, 172, 232, 189, 174, 58, 32]"

definition msg_call_failed :: string where
  "msg_call_failed = utf8 [229, 164, 167, 230, 168, 161, 229, 158, 139, 232, 176, 131, 231, 148,
     168, 229, 164, 177, 232, 180, 165, 58, 32]"

definition msg_empty_result :: string where
  "msg_empty_result = utf8 [229, 164, 167, 230, 168, 161, 229, 158, 139, 232, 191, 148, 229, 155,
     158, 231, 169, 186, 231, 187, 147, 230, 158, 156]"

definition msg_parse_failed :: string where
  "msg_parse_failed = utf8 [232, 167, 163, 230, 158, 144, 229, 164, 167, 230, 168, 161, 229, 158,
     139, 232, 190, 147, 229, 135, 186, 229, 164, 177, 232, 180, 165, 58, 32]"

definition msg_no_reason :: string where
  "msg_no_reason = utf8 [230, 168, 161, 229, 158, 139, 230, 156, 170, 231, 187, 153, 229, 135,
     186, 231, 144, 134, 231, 148, 177]"

definition msg_no_json :: string where
  "msg_no_json = utf8 [229, 164, 167, 230, 168, 161, 229, 158, 139, 229, 147, 141, 229, 186, 148,
     228, 184, 173, 230, 156, 170, 230, 137, 190, 229, 136, 176, 74, 83, 79, 78, 229, 175, 185,
     232, 177, 161]"

definition msg_json_failed :: string where
  "msg_json_failed = utf8 [232, 167, 163, 230, 158, 144, 229, 164, 167, 230, 168, 161, 229, 158,
     139, 74, 83, 79, 78, 232, 190, 147, 229, 135, 186, 229, 164, 177, 232, 180, 165, 58, 32]"

definition trimReason :: "string \<Rightarrow> string" where
  "trimReason reason =
     (let clean = TrimSpace reason
      in if clean = [] then msg_no_reason
         else if length clean \<le> 500 then clean
         else take 500 clean)"

definition clamp :: "real \<Rightarrow> real \<Rightarrow> real \<Rightarrow> real" where
  "clamp v lo hi = (if v < lo then lo else if hi < v then hi else v)"

definition clampInt :: "int \<Rightarrow> int \<Rightarrow> int \<Rightarrow> int" where
  "clampInt v lo hi = (if v < lo then lo else if hi < v then hi else v)"

definition toInt :: "any_value \<Rightarrow> int" where
  "toInt v =
     (case v of
        AnyNil \<Rightarrow> 0
      | AnyInt n \<Rightarrow> n
      | AnyInt64 n \<Rightarrow> n
      | AnyFloat64 x \<Rightarrow> (if 0 \<le> x then \<lfloor>x\<rfloor> else \<lceil>x\<rceil>)
      | AnyOther \<Rightarrow> 0)"

definition map_get :: "(string \<times> any_value) list \<Rightarrow> string \<Rightarrow> any_value" where
  "map_get m k = (case map_of m k of Some v \<Rightarrow> v | None \<Rightarrow> AnyNil)"

definition extractTokenUsage :: "(string \<times> any_value) list option \<Rightarrow> int \<times> int \<times> int" where
  "extractTokenUsage info =
     (case info of
        None \<Rightarrow> (0, 0, 0)
      | Some m \<Rightarrow>
          (let prompt = toInt (map_get m ''PromptTokens'');
               completion = toInt (map_get m ''CompletionTokens'');
               total = toInt (map_get m ''TotalTokens'')
           in if total = 0 \<and> (0 < prompt \<or> 0 < completion)
              then (prompt, completion, wrap64 (prompt + completion))
              else (prompt, completion, total)))"

definition normalizeSide :: "string \<Rightarrow> string \<Rightarrow> Side" where
  "normalizeSide side signal =
     (let s = ToLower (TrimSpace side); sg = ToLower (TrimSpace signal)
      in if s = SideLong \<or> s = ''buy'' \<or> s = ''buy_to_enter'' then SideLong
         else if s = SideClose \<or> s = ''sell'' \<or> s = ''sell_to_exit'' then SideClose
         else if sg = SideLong \<or> sg = ''buy'' \<or> sg = ''buy_to_enter'' then SideLong
         else if sg = SideClose \<or> sg = ''sell'' \<or> sg = ''sell_to_exit'' then SideClose
         else SideNone)"

text \<open>
  The match of the regular expression \<^verbatim>\<open>(?s)\{.*\}\<close>: from the first opening brace
  to the last closing brace behind it, empty when there is none.
\<close>

definition find_json_object :: "string \<Rightarrow> string" where
  "find_json_object s =
     rev (dropWhile (\<lambda>c. c \<noteq> CHR 0x7D) (rev (dropWhile (\<lambda>c. c \<noteq> CHR 0x7B) s)))"

text \<open>
  \<^verbatim>\<open>json.Unmarshal\<close> into \<open>llmResponse\<close> is the argument \<open>unmarshal\<close>: the message
  of its error, or the decoded value.
\<close>

definition parseLLMOutput ::
  "(string \<Rightarrow> string + llmResponse) \<Rightarrow> string \<Rightarrow> string + llmResponse" where
  "parseLLMOutput unmarshal raw =
     (let clean = TrimSpace raw
      in case unmarshal clean of
           Inr out \<Rightarrow> Inr out
         | Inl _ \<Rightarrow>
             (let match = find_json_object clean
              in if match = [] then Inl msg_no_json
                 else (case unmarshal match of
                         Inl e \<Rightarrow> Inl (msg_json_failed @ e)
                       | Inr out \<Rightarrow> Inr out)))"

record LangChainAgent =
  lc_tradingMode :: string
  lc_leverage :: int
  modelName :: string

definition fallbackGenerate :: "string \<Rightarrow> nat \<Rightarrow> SignalInput \<Rightarrow> string \<Rightarrow> Signal \<times> string option" where
  "fallbackGenerate new_id now input reason =
     (\<lparr>sig_ID = new_id, sig_CycleID = si_CycleID input, sig_Pair = si_Pair input,
       sig_Side = SideNone, sig_Confidence = 0,
       sig_Reason = msg_fallback_prefix @ trimReason reason, sig_Thinking = [],
       sig_PromptTokens = 0, sig_CompletionTokens = 0, sig_TotalTokens = 0,
       sig_ModelName = ''fallback'', sig_TTLSeconds = 60, sig_CreatedAt = now\<rparr>, None)"

text \<open>
  \<open>Generate\<close> of the LLM agent from the model call on.  The two prompts only feed the
  call, whose outcome \<open>reply\<close> is an argument, as are the decoder, the fresh id and the
  clock reading.
\<close>

definition signal_Generate ::
  "LangChainAgent \<Rightarrow> (string \<Rightarrow> string + llmResponse) \<Rightarrow> string \<Rightarrow> nat \<Rightarrow> llm_reply
     \<Rightarrow> SignalInput \<Rightarrow> Signal \<times> string option" where
  "signal_Generate a unmarshal new_id now reply input =
     (case reply of
        LLMError e \<Rightarrow> fallbackGenerate new_id now input (msg_call_failed @ e)
      | LLMChoices [] \<Rightarrow> fallbackGenerate new_id now input msg_empty_result
      | LLMChoices (choice # _) \<Rightarrow>
          (let completion = Content choice;
               tokens = extractTokenUsage (GenerationInfo choice)
           in case parseLLMOutput unmarshal completion of
                Inl e \<Rightarrow> fallbackGenerate new_id now input (msg_parse_failed @ e)
              | Inr parsed \<Rightarrow>
                  (let side = normalizeSide (lr_Side parsed) (lr_Signal parsed);
                       conf = (if side = SideNone then min (lr_Confidence parsed) (55 / 100)
                               else lr_Confidence parsed);
                       reason = (if lr_Reason parsed = [] then Justification parsed
                                 else lr_Reason parsed);
                       thinking = (if lr_Thinking parsed = [] \<and>
                                      length (lr_Reason parsed) < length (Justification parsed)
                                   then Justification parsed else lr_Thinking parsed)
                   in (\<lparr>sig_ID = new_id, sig_CycleID = si_CycleID input,
                        sig_Pair = si_Pair input, sig_Side = side,
                        sig_Confidence = clamp conf 0 1, sig_Reason = trimReason reason,
                        sig_Thinking = thinking, sig_PromptTokens = fst tokens,
                        sig_CompletionTokens = fst (snd tokens),
                        sig_TotalTokens = snd (snd tokens), sig_ModelName = modelName a,
                        sig_TTLSeconds = clampInt (lr_TTLSeconds parsed) 60 1800,
                        sig_CreatedAt = now\<rparr>, None))))"

text \<open>The three failures of the LLM path.\<close>

definition llm_path_fails :: "(string \<Rightarrow> string + llmResponse) \<Rightarrow> llm_reply \<Rightarrow> bool" where
  "llm_path_fails unmarshal reply =
     (case reply of
        LLMError e \<Rightarrow> True
      | LLMChoices [] \<Rightarrow> True
      | LLMChoices (choice # _) \<Rightarrow> isl (parseLLMOutput unmarshal (Content choice)))"

section \<open>Execution agents (internal/agent/execution, spot and futures)\<close>

record ExecInput =
  ei_CycleID :: string
  ei_SignalID :: string
  ei_Pair :: string
  ei_Side :: Side
  ei_StakeUSDT :: real
  EstimatedFill :: real
  SellQuantity :: real

text \<open>
  What an executor meets outside itself.  \<open>uuid_order\<close> and \<open>uuid_client\<close> are the two
  fresh UUIDs, \<open>clock\<close> and \<open>clock_millis\<close> the time.  \<open>ticker\<close> answers the public
  price request for a URL: the price, or a failure.  \<open>request_error\<close> is the error of
  \<^verbatim>\<open>http.NewRequestWithContext\<close> for the order URL, if any.  \<open>exchange\<close> answers a
  request that was sent.  \<open>url_encode\<close> and \<open>hmac_sha256_hex\<close> are
  \<^verbatim>\<open>url.Values.Encode\<close> and the hex HMAC-SHA256 of a message under a key.
\<close>

datatype ticker_reply = TickerError | TickerPrice real

record order_reply =
  r_orderId :: int
  r_status :: string
  r_fills :: "(real \<times> real) list"
  r_avgPrice :: "real option"
  r_executedQty :: "real option"

text \<open>
  A reply body is kept with what \<^verbatim>\<open>json.Unmarshal\<close> makes of it (\<open>None\<close> when it
  fails).  The fills are the pairs of price and quantity as \<^verbatim>\<open>strconv.ParseFloat\<close>
  reads them, 0 for a text it rejects; \<open>r_avgPrice\<close> and \<open>r_executedQty\<close> are \<open>None\<close>
  for a text it rejects.
\<close>

datatype http_outcome =
  TransportError string
| ReadError string
| HttpResponse int string "order_reply option"

datatype http_request =
  PublicGet string
| SignedPost string string "(string \<times> string) list"

record world =
  uuid_order :: string
  uuid_client :: string
  clock :: nat
  clock_millis :: int
  ticker :: "string \<Rightarrow> ticker_reply"
  request_error :: "string option"
  exchange :: "http_request \<Rightarrow> http_outcome"
  url_encode :: "(string \<times> string) list \<Rightarrow> string"
  hmac_sha256_hex :: "string \<Rightarrow> string \<Rightarrow> string"

record BinanceExecutor =
  baseURL :: string
  apiKey :: string
  secretKey :: string
  dryRun :: bool

record BinanceFuturesExecutor = BinanceExecutor +
  leverage :: int
  marginType :: string

definition int_digits :: "int \<Rightarrow> string" where
  "int_digits i = (if i < 0 then ''-'' @ nat_digits (nat (- i)) else nat_digits (nat i))"

definition dq :: string where
  "dq = [CHR 0x22]"

text \<open>\<^verbatim>\<open>url.Values.Set\<close>.\<close>

fun set_param :: "string \<Rightarrow> string \<Rightarrow> (string \<times> string) list \<Rightarrow> (string \<times> string) list" where
  "set_param k v [] = [(k, v)]"
| "set_param k v (p # ps) = (if fst p = k then (k, v) # ps else p # set_param k v ps)"

definition get_param :: "(string \<times> string) list \<Rightarrow> string \<Rightarrow> string option" where
  "get_param ps k = map_of ps k"

definition to_upper :: "char \<Rightarrow> char" where
  "to_upper c =
     (if 97 \<le> (of_char c :: nat) \<and> (of_char c :: nat) \<le> 122
      then char_of ((of_char c :: nat) - 32) else c)"

definition ToUpper :: "string \<Rightarrow> string" where
  "ToUpper s = map to_upper s"

definition HasPrefix :: "string \<Rightarrow> string \<Rightarrow> bool" where
  "HasPrefix s pre = (take (length pre) s = pre)"

text \<open>\<open>pairToSymbol\<close> drops every slash.\<close>

definition pairToSymbol :: "string \<Rightarrow> string" where
  "pairToSymbol pair = filter (\<lambda>c. c \<noteq> CHR ''/'') pair"

definition mapBinanceStatus :: "string \<Rightarrow> string" where
  "mapBinanceStatus s =
     (if s = ''FILLED'' then ''filled''
      else if s = ''PARTIALLY_FILLED'' then ''partial_filled''
      else if s = ''NEW'' then ''submitted''
      else if s = ''CANCELED'' \<or> s = ''REJECTED'' \<or> s = ''EXPIRED'' then ''rejected''
      else s)"

definition getMinQuantity :: "string \<Rightarrow> real" where
  "getMinQuantity symbol =
     (let sym = ToUpper symbol
      in if HasPrefix sym ''DOGE'' then 1
         else if HasPrefix sym ''XRP'' then 1
         else if HasPrefix sym ''BNB'' then 1 / 100
         else if HasPrefix sym ''SOL'' then 1 / 100
         else if HasPrefix sym ''ETH'' then 1 / 10000
         else if HasPrefix sym ''BTC'' then 1 / 100000
         else 1)"

text \<open>
  \<open>quantityPrecision\<close> and \<open>futuresQuantityPrecision\<close> floor a binary64 quantity to
  the step of the instrument, in binary64 arithmetic, and print it; the characters are
  \<open>render_printed\<close> of the result.
\<close>

definition quantityPrecision :: "string \<Rightarrow> f64 \<Rightarrow> printed" where
  "quantityPrecision symbol qty =
     (let sym = ToUpper symbol
      in if HasPrefix sym ''DOGE'' then FormatFloat64 (f64_floor qty) 0
         else if HasPrefix sym ''XRP''
           then FormatFloat64 (f64_div (f64_floor (f64_mul qty (Fin 10))) (Fin 10)) 1
         else if HasPrefix sym ''BNB'' \<or> HasPrefix sym ''SOL''
           then FormatFloat64 (f64_div (f64_floor (f64_mul qty (Fin 100))) (Fin 100)) 2
         else if HasPrefix sym ''ETH''
           then FormatFloat64 (f64_div (f64_floor (f64_mul qty (Fin 10000))) (Fin 10000)) 4
         else if HasPrefix sym ''BTC''
           then FormatFloat64 (f64_div (f64_floor (f64_mul qty (Fin 100000))) (Fin 100000)) 5
         else FormatFloat64 (f64_div (f64_floor (f64_mul qty (Fin 100))) (Fin 100)) 2)"

definition futuresQuantityPrecision :: "string \<Rightarrow> f64 \<Rightarrow> printed" where
  "futuresQuantityPrecision symbol qty =
     (let sym = ToUpper symbol
      in if HasPrefix sym ''DOGE'' then FormatFloat64 (f64_floor qty) 0
         else if HasPrefix sym ''XRP''
           then FormatFloat64 (f64_div (f64_floor (f64_mul qty (Fin 10))) (Fin 10)) 1
         else if HasPrefix sym ''BNB'' \<or> HasPrefix sym ''SOL''
           then FormatFloat64 (f64_div (f64_floor (f64_mul qty (Fin 100))) (Fin 100)) 2
         else if HasPrefix sym ''ETH''
           then FormatFloat64 (f64_div (f64_floor (f64_mul qty (Fin 1000))) (Fin 1000)) 3
         else if HasPrefix sym ''BTC''
           then FormatFloat64 (f64_div (f64_floor (f64_mul qty (Fin 1000))) (Fin 1000)) 3
         else FormatFloat64 (f64_div (f64_floor (f64_mul qty (Fin 100))) (Fin 100)) 2)"

definition msg_no_api_key :: string where
  "msg_no_api_key = utf8 [228, 186, 164, 230, 152, 147, 230, 137, 128, 32, 65, 80, 73, 32, 75,
     101, 121, 32, 230, 156, 170, 233, 133, 141, 231, 189, 174, 239, 188, 140, 230, 151, 160,
     230, 179, 149, 229, 174, 158, 231, 155, 152, 228, 184, 139, 229, 141, 149]"

definition msg_dust_a :: string where
  "msg_dust_a = utf8 [229, 141, 150, 229, 135, 186, 230, 149, 176, 233, 135, 143, 228, 184, 141,
     232, 182, 179, 58, 32]"

definition msg_dust_b :: string where
  "msg_dust_b = utf8 [32, 228, 189, 142, 228, 186, 142, 230, 156, 128, 229, 176, 143, 228, 186,
     164, 230, 152, 147, 233, 135, 143, 32]"

definition msg_dust_c :: string where
  "msg_dust_c = utf8 [239, 188, 136, 231, 129, 176, 229, 176, 152, 230, 140, 129, 228, 187, 147,
     230, 151, 160, 230, 179, 149, 228, 186, 164, 230, 152, 147, 239, 188, 137]"

definition msg_build_failed :: string where
  "msg_build_failed = utf8 [230, 158, 132, 229, 187, 186, 232, 175, 183, 230, 177, 130, 229, 164,
     177, 232, 180, 165, 58, 32]"

definition msg_request_failed :: string where
  "msg_request_failed = utf8 [66, 105, 110, 97, 110, 99, 101, 32, 232, 175, 183, 230, 177, 130,
     229, 164, 177, 232, 180, 165, 58, 32]"

definition msg_read_failed :: string where
  "msg_read_failed = utf8 [232, 175, 187, 229, 143, 150, 229, 147, 141, 229, 186, 148, 229, 164,
     177, 232, 180, 165, 58, 32]"

definition msg_no_price :: string where
  "msg_no_price = utf8 [230, 151, 160, 230, 179, 149, 232, 174, 161, 231, 174, 151, 229, 188, 128,
     228, 187, 147, 230, 149, 176, 233, 135, 143, 239, 188, 154, 231, 188, 186, 229, 176, 145,
     228, 187, 183, 230, 160, 188, 230, 149, 176, 230, 141, 174]"

definition msg_no_quantity :: string where
  "msg_no_quantity = utf8 [229, 185, 179, 228, 187, 147, 231, 188, 186, 229, 176, 145, 230, 149,
     176, 233, 135, 143, 229, 143, 130, 230, 149, 176]"

text \<open>The dust message of the spot executor.\<close>

definition dust_error :: "real \<Rightarrow> string \<Rightarrow> string" where
  "dust_error sellQuantity symbol =
     msg_dust_a @ render (FormatFloat_f sellQuantity 8) @ '' '' @ symbol @ msg_dust_b @
     render (FormatFloat_f (getMinQuantity symbol) 0) @ msg_dust_c"

definition http_error :: "int \<Rightarrow> string \<Rightarrow> string" where
  "http_error code body = ''Binance HTTP '' @ int_digits code @ '': '' @ body"

definition new_order :: "world \<Rightarrow> ExecInput \<Rightarrow> int \<Rightarrow> Order" where
  "new_order w input lev =
     \<lparr>ord_ID = uuid_order w, ord_CycleID = ei_CycleID input, ord_SignalID = ei_SignalID input,
      ClientOrderID = ''aq'' @ take 8 (uuid_client w), ord_Pair = ei_Pair input,
      ord_Side = ei_Side input, StakeUSDT = ei_StakeUSDT input, Leverage = lev,
      ord_Status = ''created'', ExchangeOrderID = [], FilledPrice = 0, FilledQuantity = 0,
      RawResponse = [], ord_CreatedAt = clock w\<rparr>"

text \<open>
  The dry-run price: the hint, or for a non-positive hint the ticker's price when the
  request succeeds with a positive one.  The second component lists the request made.
\<close>

definition dry_run_price :: "world \<Rightarrow> string \<Rightarrow> real \<Rightarrow> real \<times> http_request list" where
  "dry_run_price w url hint =
     (if hint \<le> 0 then
        (case ticker w url of
           TickerPrice price \<Rightarrow> (if 0 < price then price else hint)
         | TickerError \<Rightarrow> hint,
         [PublicGet url])
      else (hint, []))"

text \<open>The weighted average fill of the spot reply.\<close>

definition apply_fills :: "(real \<times> real) list \<Rightarrow> Order \<Rightarrow> Order" where
  "apply_fills fills order =
     (if fills = [] then order
      else
        (let totalQty = foldl (\<lambda>a f. a + snd f) 0 fills;
             totalCost = foldl (\<lambda>a f. a + fst f * snd f) 0 fills
         in if 0 < totalQty
            then order\<lparr>FilledPrice := totalCost / totalQty, FilledQuantity := totalQty\<rparr>
            else order))"

text \<open>
  \<open>Execute\<close> of the spot executor: the order, the error and the requests sent, in
  order.
\<close>

definition spot_Execute ::
  "BinanceExecutor \<Rightarrow> world \<Rightarrow> ExecInput \<Rightarrow> Order \<times> string option \<times> http_request list" where
  "spot_Execute e w input =
     (let order = new_order w input 0
      in if dryRun e then
           (let pr = dry_run_price w
                       (''https://api.binance.com/api/v3/ticker/price?symbol='' @
                        pairToSymbol (ei_Pair input)) (EstimatedFill input);
                estimatedFill = fst pr
            in (order\<lparr>ord_Status := ''simulated_filled'',
                      ExchangeOrderID := ''dryrun-'' @ ord_ID order,
                      FilledPrice := estimatedFill,
                      RawResponse := ''{'' @ dq @ ''mode'' @ dq @ '':'' @ dq @ ''dry_run'' @ dq @ ''}'',
                      FilledQuantity :=
                        (if 0 < estimatedFill \<and> ei_Side input = SideLong
                         then ei_StakeUSDT input / estimatedFill
                         else if 0 < SellQuantity input then SellQuantity input
                         else 0)\<rparr>,
                None, snd pr))
         else if apiKey e = [] \<or> secretKey e = [] then
           (order\<lparr>ord_Status := ''rejected''\<rparr>, Some msg_no_api_key, [])
         else
           (let symbol = pairToSymbol (ei_Pair input);
                side = (if ei_Side input = SideClose then ''SELL'' else ''BUY'');
                params0 =
                  set_param ''timestamp'' (int_digits (clock_millis w))
                    (set_param ''newClientOrderId'' (ClientOrderID order)
                      (set_param ''type'' ''MARKET''
                        (set_param ''side'' side (set_param ''symbol'' symbol []))));
                quote = set_param ''quoteOrderQty''
                          (render (FormatFloat_f (ei_StakeUSDT input) 2)) params0;
                qty = quantityPrecision symbol (Fin (SellQuantity input))
            in if side \<noteq> ''BUY'' \<and> 0 < SellQuantity input \<and> f64_le (ParseFloat64 qty) (Fin 0)
               then
                 (order\<lparr>ord_Status := ''rejected''\<rparr>,
                  Some (dust_error (SellQuantity input) symbol), [])
               else
                 (let params1 =
                        (if side = ''BUY'' then quote
                         else if 0 < SellQuantity input
                           then set_param ''quantity'' (render_printed qty) params0
                         else quote);
                      params = set_param ''signature''
                                 (hmac_sha256_hex w (secretKey e) (url_encode w params1)) params1;
                      req = SignedPost (baseURL e @ ''/api/v3/order'') (apiKey e) params
                  in case request_error w of
                       Some err \<Rightarrow> (order, Some (msg_build_failed @ err), [])
                     | None \<Rightarrow>
                         (case exchange w req of
                            TransportError err \<Rightarrow>
                              (order\<lparr>ord_Status := ''failed''\<rparr>,
                               Some (msg_request_failed @ err), [req])
                          | ReadError err \<Rightarrow>
                              (order\<lparr>ord_Status := ''failed''\<rparr>,
                               Some (msg_read_failed @ err), [req])
                          | HttpResponse code body parsed \<Rightarrow>
                              (let order1 = order\<lparr>RawResponse := body\<rparr>
                               in if 300 \<le> code then
                                    (order1\<lparr>ord_Status := ''rejected''\<rparr>,
                                     Some (http_error code body), [req])
                                  else
                                    (case parsed of
                                       None \<Rightarrow> (order1, None, [req])
                                     | Some r \<Rightarrow>
                                         (apply_fills (r_fills r)
                                            (order1\<lparr>ExchangeOrderID := int_digits (r_orderId r),
                                                    ord_Status := mapBinanceStatus (r_status r)\<rparr>),
                                          None, [req])))))))"

text \<open>\<open>Execute\<close> of the futures executor.\<close>

definition futures_symbol :: "string \<Rightarrow> string" where
  "futures_symbol pair = filter (\<lambda>c. c \<noteq> CHR ''/'') (ToUpper pair)"

definition futures_Execute ::
  "BinanceFuturesExecutor \<Rightarrow> world \<Rightarrow> ExecInput \<Rightarrow> Order \<times> string option \<times> http_request list"
  where
  "futures_Execute e w input =
     (let order = new_order w input (leverage e)
      in if dryRun e then
           (let pr = dry_run_price w
                       (baseURL e @ ''/fapi/v1/ticker/price?symbol='' @
                        futures_symbol (ei_Pair input)) (EstimatedFill input);
                estimatedFill = fst pr
            in (order\<lparr>ord_Status := ''simulated_filled'',
                      ExchangeOrderID := ''dryrun-futures-'' @ ord_ID order,
                      FilledPrice := estimatedFill,
                      RawResponse := ''{'' @ dq @ ''mode'' @ dq @ '':'' @ dq @ ''dry_run'' @ dq @
                        '','' @ dq @ ''leverage'' @ dq @ '':'' @ int_digits (leverage e) @ ''}'',
                      FilledQuantity :=
                        (if 0 < estimatedFill \<and> ei_Side input = SideLong
                         then ei_StakeUSDT input * of_int (leverage e) / estimatedFill
                         else if 0 < SellQuantity input then SellQuantity input
                         else 0)\<rparr>,
                None, snd pr))
         else if apiKey e = [] \<or> secretKey e = [] then
           (order\<lparr>ord_Status := ''rejected''\<rparr>, Some msg_no_api_key, [])
         else
           (let symbol = futures_symbol (ei_Pair input);
                side = (if ei_Side input = SideClose then ''SELL'' else ''BUY'');
                params0 =
                  set_param ''timestamp'' (int_digits (clock_millis w))
                    (set_param ''newClientOrderId'' (ClientOrderID order)
                      (set_param ''type'' ''MARKET''
                        (set_param ''side'' side (set_param ''symbol'' symbol []))))
            in if side = ''BUY'' \<and> \<not> 0 < EstimatedFill input then
                 (order\<lparr>ord_Status := ''rejected''\<rparr>, Some msg_no_price, [])
               else if side \<noteq> ''BUY'' \<and> \<not> 0 < SellQuantity input then
                 (order\<lparr>ord_Status := ''rejected''\<rparr>, Some msg_no_quantity, [])
               else
                 (let params1 =
                        (if side = ''BUY'' then
                           (let rawQty =
                                  f64_div (f64_mul (Fin (ei_StakeUSDT input))
                                             (f64_of_int (leverage e)))
                                    (Fin (EstimatedFill input))
                            in set_param ''quantity''
                                 (render_printed (futuresQuantityPrecision symbol rawQty)) params0)
                         else
                           set_param ''quantity''
                             (render_printed
                                (futuresQuantityPrecision symbol (Fin (SellQuantity input))))
                             (set_param ''reduceOnly'' ''true'' params0));
                      params = set_param ''signature''
                                 (hmac_sha256_hex w (secretKey e) (url_encode w params1)) params1;
                      req = SignedPost (baseURL e @ ''/fapi/v1/order'') (apiKey e) params
                  in case request_error w of
                       Some err \<Rightarrow> (order, Some (msg_build_failed @ err), [])
                     | None \<Rightarrow>
                         (case exchange w req of
                            TransportError err \<Rightarrow>
                              (order\<lparr>ord_Status := ''failed''\<rparr>,
                               Some (msg_request_failed @ err), [req])
                          | ReadError err \<Rightarrow>
                              (order\<lparr>ord_Status := ''failed''\<rparr>,
                               Some (msg_read_failed @ err), [req])
                          | HttpResponse code body parsed \<Rightarrow>
                              (let order1 = order\<lparr>RawResponse := body\<rparr>
                               in if 300 \<le> code then
                                    (order1\<lparr>ord_Status := ''rejected''\<rparr>,
                                     Some (http_error code body), [req])
                                  else
                                    (case parsed of
                                       None \<Rightarrow> (order1, None, [req])
                                     | Some r \<Rightarrow>
                                         (let order2 =
                                                order1\<lparr>ExchangeOrderID := int_digits (r_orderId r),
                                                       ord_Status := mapBinanceStatus (r_status r)\<rparr>;
                                              order3 = (case r_avgPrice r of
                                                          Some p \<Rightarrow> order2\<lparr>FilledPrice := p\<rparr>
                                                        | None \<Rightarrow> order2);
                                              order4 = (case r_executedQty r of
                                                          Some q \<Rightarrow> order3\<lparr>FilledQuantity := q\<rparr>
                                                        | None \<Rightarrow> order3)
                                          in (order4, None, [req]))))))))"

text \<open>Reading a result, and the order requests among the requests sent.\<close>

definition result_order :: "Order \<times> string option \<times> http_request list \<Rightarrow> Order" where
  "result_order r = fst r"

definition result_error :: "Order \<times> string option \<times> http_request list \<Rightarrow> string option" where
  "result_error r = fst (snd r)"

definition requests_sent :: "Order \<times> string option \<times> http_request list \<Rightarrow> http_request list" where
  "requests_sent r = snd (snd r)"

fun is_order_request :: "http_request \<Rightarrow> bool" where
  "is_order_request (PublicGet url) = False"
| "is_order_request (SignedPost url key params) = True"

fun request_params :: "http_request \<Rightarrow> (string \<times> string) list" where
  "request_params (PublicGet url) = []"
| "request_params (SignedPost url key params) = params"



text \<open>
  No positive price can be obtained: the hint is not positive and the ticker fails or
  answers a price that is not positive.
\<close>

definition no_positive_price :: "world \<Rightarrow> string \<Rightarrow> real \<Rightarrow> bool" where
  "no_positive_price w url hint =
     (\<not> 0 < hint \<and> (case ticker w url of TickerPrice price \<Rightarrow> \<not> 0 < price | TickerError \<Rightarrow> True))"

definition spot_ticker_url :: "string \<Rightarrow> string" where
  "spot_ticker_url pair =
     ''https://api.binance.com/api/v3/ticker/price?symbol='' @ pairToSymbol pair"

definition futures_ticker_url :: "BinanceFuturesExecutor \<Rightarrow> string \<Rightarrow> string" where
  "futures_ticker_url e pair =
     baseURL e @ ''/fapi/v1/ticker/price?symbol='' @ futures_symbol pair"

text \<open>A holding whose average price is its cost per unit.\<close>

definition consistent_holding :: "Holding \<Rightarrow> bool" where
  "consistent_holding h = (AvgPrice h * Quantity h = TotalCost h)"

section \<open>Sample inputs\<close>

text \<open>The configuration defaults and the signal of the spot scenario of the specification.\<close>

definition demo_agent :: RuleAgent where
  "demo_agent = \<lparr>maxSingleStakeUSDT = 50, maxDailyLossUSDT = 100, maxExposureUSDT = 200,
     minConfidence = 55 / 100, ra_tradingMode = ''spot'', ra_leverage = 1\<rparr>"

definition demo_signal :: "Side \<Rightarrow> real \<Rightarrow> Signal" where
  "demo_signal sd c =
     \<lparr>sig_ID = ''s1'', sig_CycleID = ''c1'', sig_Pair = ''DOGE/USDT'', sig_Side = sd,
      sig_Confidence = c, sig_Reason = ''momentum'', sig_Thinking = [], sig_PromptTokens = 0,
      sig_CompletionTokens = 0, sig_TotalTokens = 0, sig_ModelName = ''gpt-4o-mini'',
      sig_TTLSeconds = 600, sig_CreatedAt = 0\<rparr>"

definition demo_risk_input :: "Side \<Rightarrow> real \<Rightarrow> RiskInput" where
  "demo_risk_input sd c =
     \<lparr>ri_CycleID = ''c1'', ri_Signal = demo_signal sd c,
      ri_Portfolio = \<lparr>DailyPnLUSDT = 0, OpenExposureUSDT = 0\<rparr>\<rparr>"


text \<open>A holding of 500 DOGE bought at 0.10, and orders filled against it.\<close>

definition demo_holdings :: "Holding list" where
  "demo_holdings =
     [\<lparr>h_ID = 1, h_Pair = ''DOGE/USDT'', Symbol = ''DOGE'', Quantity = 500,
       AvgPrice = 1 / 10, TotalCost = 50, Source = ''local'', UpdatedAt = 0\<rparr>]"

definition demo_order :: "Side \<Rightarrow> real \<Rightarrow> real \<Rightarrow> Order" where
  "demo_order sd price qty =
     \<lparr>ord_ID = ''o1'', ord_CycleID = ''c1'', ord_SignalID = ''s1'', ClientOrderID = ''aq12345678'',
      ord_Pair = ''DOGE/USDT'', ord_Side = sd, StakeUSDT = 50, Leverage = 0,
      ord_Status = ''simulated_filled'', ExchangeOrderID = ''dryrun-o1'', FilledPrice = price,
      FilledQuantity = qty, RawResponse = [], ord_CreatedAt = 0\<rparr>"


text \<open>An agent, a request and a decoder that accepts nothing.\<close>

definition demo_llm_agent :: LangChainAgent where
  "demo_llm_agent = \<lparr>lc_tradingMode = ''spot'', lc_leverage = 1, modelName = ''gpt-4o-mini''\<rparr>"

definition demo_signal_input :: SignalInput where
  "demo_signal_input = \<lparr>si_CycleID = ''c1'', si_Pair = ''BTC/USDT''\<rparr>"

definition reject_all :: "string \<Rightarrow> string + llmResponse" where
  "reject_all s = Inl ''invalid character''"

text \<open>
  A world whose exchange answers every order with status 200 and a body that is not
  JSON, a live futures executor and inputs.
\<close>

definition demo_world :: world where
  "demo_world =
     \<lparr>uuid_order = ''0b0e7a52-5a1c-4f0e-9d55-0c2f6a1d9e11'',
      uuid_client = ''7c1d2e3f-aaaa-bbbb-cccc-121212121212'', clock = 0, clock_millis = 0,
      ticker = (\<lambda>url. TickerError), request_error = None,
      exchange = (\<lambda>req. HttpResponse 200 ''accepted'' None),
      url_encode = (\<lambda>ps. concat (map (\<lambda>p. fst p @ ''='' @ snd p @ ''&'') ps)),
      hmac_sha256_hex = (\<lambda>key msg. ''00'')\<rparr>"

definition demo_futures :: BinanceFuturesExecutor where
  "demo_futures =
     \<lparr>baseURL = ''https://fapi.binance.com'', apiKey = ''key'', secretKey = ''secret'',
      dryRun = False, leverage = 5, marginType = ''CROSSED''\<rparr>"

definition demo_exec_input :: "string \<Rightarrow> Side \<Rightarrow> real \<Rightarrow> real \<Rightarrow> real \<Rightarrow> ExecInput" where
  "demo_exec_input pair sd stake est sell =
     \<lparr>ei_CycleID = ''c1'', ei_SignalID = ''s1'', ei_Pair = pair, ei_Side = sd,
      ei_StakeUSDT = stake, EstimatedFill = est, SellQuantity = sell\<rparr>"

definition demo_spot :: "bool \<Rightarrow> string \<Rightarrow> BinanceExecutor" where
  "demo_spot dry key =
     \<lparr>baseURL = ''https://api.binance.com'', apiKey = key, secretKey = key, dryRun = dry\<rparr>"

text \<open>
  The binary64 numbers nearest to 0.1 and to 0.7, which is what the Go literals
  \<^verbatim>\<open>0.1\<close> and \<^verbatim>\<open>0.7\<close> denote.
\<close>

definition f64_tenth :: real where
  "f64_tenth = 3602879701896397 / 2 ^ 55"

definition f64_seven_tenths :: real where
  "f64_seven_tenths = 3152519739159347 / 2 ^ 52"

section \<open>Risk gate\<close>

text \<open>
  C1.  For every agent configuration, signal and portfolio state, \<open>Evaluate\<close> returns
  no error.  A signal of side none is rejected with stake 0.  A close signal is approved
  exactly when its confidence reaches the minimum, with stake 0.  A long signal is approved
  exactly when the confidence reaches the minimum, the daily PnL is above the negated
  absolute loss limit and min(max single stake, max exposure - open exposure) is positive;
  the approved stake is that minimum.  Every rejection has a non-empty reason.
\<close>

theorem Evaluate_risk_gate:
  fixes a :: RuleAgent and input :: RiskInput and new_id :: string and now :: nat
  defines "d \<equiv> fst (Evaluate a new_id now input)"
    and "s \<equiv> ri_Signal input"
    and "p \<equiv> ri_Portfolio input"
    and "cap \<equiv> min (maxSingleStakeUSDT a)
                   (maxExposureUSDT a - OpenExposureUSDT (ri_Portfolio input))"
  shows "snd (Evaluate a new_id now input) = None
   \<and> (sig_Side s = SideNone \<longrightarrow> \<not> Approved d \<and> MaxStakeUSDT d = 0)
   \<and> (sig_Side s = SideClose \<longrightarrow>
        (Approved d \<longleftrightarrow> minConfidence a \<le> sig_Confidence s) \<and> MaxStakeUSDT d = 0)
   \<and> (sig_Side s = SideLong \<longrightarrow>
        (Approved d \<longleftrightarrow> minConfidence a \<le> sig_Confidence s
                        \<and> - \<bar>maxDailyLossUSDT a\<bar> < DailyPnLUSDT p \<and> 0 < cap)
        \<and> (Approved d \<longrightarrow> MaxStakeUSDT d = cap
              \<and> MaxStakeUSDT d
                  \<le> min (maxSingleStakeUSDT a) (maxExposureUSDT a - OpenExposureUSDT p)))
   \<and> (\<not> Approved d \<longrightarrow> RejectReason d \<noteq> [])"
  unfolding d_def s_def p_def cap_def
  by (auto simp: Evaluate_def Let_def SideNone_def SideClose_def SideLong_def)

theorem Evaluate_risk_gate_witness:
  "sig_Side (ri_Signal (demo_risk_input SideLong (8 / 10))) = SideLong
   \<and> snd (Evaluate demo_agent ''r1'' 0 (demo_risk_input SideLong (8 / 10))) = None
   \<and> Approved (fst (Evaluate demo_agent ''r1'' 0 (demo_risk_input SideLong (8 / 10))))
   \<and> MaxStakeUSDT (fst (Evaluate demo_agent ''r1'' 0 (demo_risk_input SideLong (8 / 10)))) = 50
   \<and> sig_Side (ri_Signal (demo_risk_input SideClose (4 / 10))) = SideClose
   \<and> \<not> Approved (fst (Evaluate demo_agent ''r1'' 0 (demo_risk_input SideClose (4 / 10))))
   \<and> RejectReason (fst (Evaluate demo_agent ''r1'' 0 (demo_risk_input SideClose (4 / 10)))) \<noteq> []
   \<and> sig_Side (ri_Signal (demo_risk_input SideNone (9 / 10))) = SideNone
   \<and> \<not> Approved (fst (Evaluate demo_agent ''r1'' 0 (demo_risk_input SideNone (9 / 10))))"
  using Evaluate_risk_gate [of demo_agent "''r1''" 0 "demo_risk_input SideLong (8 / 10)"]
    Evaluate_risk_gate [of demo_agent "''r1''" 0 "demo_risk_input SideClose (4 / 10)"]
    Evaluate_risk_gate [of demo_agent "''r1''" 0 "demo_risk_input SideNone (9 / 10)"]
  by (simp add: demo_risk_input_def demo_signal_def demo_agent_def)

section \<open>Rounding error of binary64 operations\<close>

text \<open>
  \<open>f64_exponent\<close> finds the spacing exponent: the search returns the exponent that the
  two bounds determine.
\<close>

lemma exp_search_ge: "e \<le> exp_search n e a"
proof (induction n arbitrary: e)
  case 0
  show ?case by simp
next
  case (Suc n)
  show ?case using Suc [of "e + 1"] by simp
qed

lemma exp_search_le: "exp_search n e a \<le> e + int n"
proof (induction n arbitrary: e)
  case 0
  show ?case by simp
next
  case (Suc n)
  show ?case using Suc [of "e + 1"] by simp
qed

lemma exp_search_upper:
  "exp_search n e a < e + int n \<Longrightarrow> a < 2 powi (exp_search n e a + 53)"
proof (induction n arbitrary: e)
  case 0
  then show ?case by simp
next
  case (Suc n)
  show ?case
  proof (cases "2 powi (e + 53) \<le> a")
    case True
    then show ?thesis using Suc.IH [of "e + 1"] Suc.prems by simp
  next
    case False
    then show ?thesis by simp
  qed
qed

lemma exp_search_lower:
  "e < exp_search n e a \<Longrightarrow> 2 powi (exp_search n e a + 52) \<le> a"
proof (induction n arbitrary: e)
  case 0
  then show ?case by simp
next
  case (Suc n)
  show ?case
  proof (cases "2 powi (e + 53) \<le> a")
    case True
    show ?thesis
    proof (cases "e + 1 < exp_search n (e + 1) a")
      case True
      then show ?thesis using Suc.IH [of "e + 1"] \<open>2 powi (e + 53) \<le> a\<close> by simp
    next
      case False
      then have "exp_search n (e + 1) a = e + 1"
        using exp_search_ge [of "e + 1" n a] by simp
      then show ?thesis using \<open>2 powi (e + 53) \<le> a\<close> by (simp add: add.commute)
    qed
  next
    case False
    then show ?thesis using Suc.prems by simp
  qed
qed

lemma exp_search_eq:
  "e0 \<le> e \<Longrightarrow> e < e0 + int n \<Longrightarrow> a < 2 powi (e + 53) \<Longrightarrow> e = e0 \<or> 2 powi (e + 52) \<le> a
   \<Longrightarrow> exp_search n e0 a = e"
proof (induction n arbitrary: e0)
  case 0
  then show ?case by simp
next
  case (Suc n)
  show ?case
  proof (cases "e = e0")
    case True
    then show ?thesis using Suc.prems by simp
  next
    case False
    then have lt: "e0 < e" and low: "2 powi (e + 52) \<le> a" using Suc.prems by auto
    have "(2::real) powi (e0 + 53) \<le> 2 powi (e + 52)"
      using lt by (intro power_int_increasing) auto
    then have c: "2 powi (e0 + 53) \<le> a" using low by simp
    have "exp_search n (e0 + 1) a = e"
      using lt Suc.prems low by (intro Suc.IH) auto
    then show ?thesis using c by simp
  qed
qed

text \<open>The spacing exponent of a magnitude below the overflow threshold.\<close>

lemma f64_exponent_range:
  assumes "a < 2 powi 1024"
  shows "- 1074 \<le> f64_exponent a" "f64_exponent a \<le> 971"
    "a < 2 powi (f64_exponent a + 53)"
    "- 1074 < f64_exponent a \<Longrightarrow> 2 powi (f64_exponent a + 52) \<le> a"
proof -
  let ?e = "f64_exponent a"
  show lo: "- 1074 \<le> ?e" unfolding f64_exponent_def by (rule exp_search_ge)
  have le: "?e \<le> 972"
    using exp_search_le [of 2046 "- 1074" a] unfolding f64_exponent_def by simp
  show low: "2 powi (?e + 52) \<le> a" if "- 1074 < ?e"
    using that exp_search_lower [of "- 1074" 2046 a] unfolding f64_exponent_def by simp
  show hi: "?e \<le> 971"
  proof (rule ccontr)
    assume "\<not> ?e \<le> 971"
    then have e: "?e = 972" using le by simp
    then have "2 powi (972 + 52) \<le> a" using low by simp
    then show False using assms by simp
  qed
  show "a < 2 powi (?e + 53)"
    using hi exp_search_upper [of 2046 "- 1074" a] unfolding f64_exponent_def by simp
qed

lemma f64_exponent_eq:
  assumes "- 1074 \<le> e" "e \<le> 971" "a < 2 powi (e + 53)" "e = - 1074 \<or> 2 powi (e + 52) \<le> a"
  shows "f64_exponent a = e"
  unfolding f64_exponent_def using assms by (intro exp_search_eq) auto

lemma round_half_even_near: "\<bar>of_int (round_half_even x) - x\<bar> \<le> 1 / 2"
  unfolding round_half_even_def Let_def by (auto simp: abs_le_iff)


lemma round_half_even_of_int: "round_half_even (of_int n) = n"
  by (simp add: round_half_even_def Let_def)

lemma round_f64_eval:
  assumes "- 1074 \<le> e" "e \<le> 971" "\<bar>x\<bar> < 2 powi (e + 53)"
    "e = - 1074 \<or> 2 powi (e + 52) \<le> \<bar>x\<bar>"
  shows "round_f64 x =
     (let y = of_int (round_half_even (\<bar>x\<bar> / 2 powi e)) * 2 powi e
      in if 2 powi 1024 \<le> y then (if x < 0 then NegInf else PosInf)
         else Fin (if x < 0 then - y else y))"
  unfolding round_f64_def f64_exponent_eq [OF assms] by (simp add: Let_def)

lemma round_f64_abs_error:
  assumes "\<bar>x\<bar> < 2 powi 1023"
  shows "\<exists>y. round_f64 x = Fin y \<and> \<bar>y - x\<bar> \<le> 2 powi (f64_exponent \<bar>x\<bar> - 1)"
proof -
  define a where "a = \<bar>x\<bar>"
  define e where "e = f64_exponent a"
  define m where "m = round_half_even (a / 2 powi e)"
  define Y where "Y = of_int m * (2::real) powi e"
  have a1024: "a < 2 powi 1024"
    using assms power_int_strict_increasing [of 1023 1024 "2::real"] unfolding a_def by simp
  have e971: "e \<le> 971" unfolding e_def using f64_exponent_range(2) [OF a1024] .
  have p: "(0::real) < 2 powi e" by simp
  have half: "(2::real) powi (e - 1) = 2 powi e / 2"
    by (simp add: power_int_diff)
  have "\<bar>of_int m - a / 2 powi e\<bar> \<le> 1 / 2"
    unfolding m_def by (rule round_half_even_near)
  then have "\<bar>of_int m - a / 2 powi e\<bar> * 2 powi e \<le> 1 / 2 * 2 powi e"
    using p by (intro mult_right_mono) auto
  moreover have "\<bar>of_int m - a / 2 powi e\<bar> * 2 powi e = \<bar>Y - a\<bar>"
  proof -
    have "\<bar>of_int m - a / 2 powi e\<bar> * 2 powi e = \<bar>(of_int m - a / 2 powi e) * 2 powi e\<bar>"
      using p by (simp add: abs_mult)
    also have "(of_int m - a / 2 powi e) * 2 powi e = Y - a"
      using p unfolding Y_def by (simp add: algebra_simps)
    finally show ?thesis .
  qed
  ultimately have err: "\<bar>Y - a\<bar> \<le> 2 powi (e - 1)" unfolding half by simp
  have "(2::real) powi (e - 1) \<le> 2 powi 970"
    using e971 by (intro power_int_increasing) auto
  then have "Y < 2 powi 1023 + 2 powi 970"
    using err assms unfolding a_def by linarith
  also have "\<dots> \<le> (2::real) powi 1024" by simp
  finally have fin: "\<not> 2 powi 1024 \<le> Y" by simp
  have r: "round_f64 x = Fin (if x < 0 then - Y else Y)"
    using fin unfolding round_f64_def Let_def a_def [symmetric] e_def [symmetric]
      m_def [symmetric] Y_def [symmetric] by simp
  have "\<bar>(if x < 0 then - Y else Y) - x\<bar> = \<bar>Y - a\<bar>"
    unfolding a_def by (auto simp: abs_if)
  then show ?thesis using r err unfolding e_def a_def by auto
qed

lemma round_f64_rel_error:
  assumes "1 / 2 ^ 1022 \<le> \<bar>x\<bar>" "\<bar>x\<bar> < 2 ^ 1023"
  shows "\<exists>t. \<bar>t\<bar> \<le> 1 / 2 ^ 53 \<and> round_f64 x = Fin (x * (1 + t))"
proof -
  define e where "e = f64_exponent \<bar>x\<bar>"
  have a1023: "\<bar>x\<bar> < 2 powi 1023" using assms(2) by simp
  then have a1024: "\<bar>x\<bar> < 2 powi 1024"
    using power_int_strict_increasing [of 1023 1024 "2::real"] by simp
  from round_f64_abs_error [OF a1023] obtain y
    where y: "round_f64 x = Fin y" and err: "\<bar>y - x\<bar> \<le> 2 powi (e - 1)"
    unfolding e_def by auto
  have low: "2 powi (e + 52) \<le> \<bar>x\<bar>"
  proof (cases "- 1074 < e")
    case True
    then show ?thesis using f64_exponent_range(4) [OF a1024] unfolding e_def by simp
  next
    case False
    then have "e = - 1074" using f64_exponent_range(1) [OF a1024] unfolding e_def by simp
    then show ?thesis using assms(1) by (simp add: power_int_minus field_simps)
  qed
  have "(2::real) powi (e - 1) = 2 powi (e + 52) * (1 / 2 ^ 53)"
    by (simp add: power_int_diff power_int_add)
  also have "\<dots> \<le> \<bar>x\<bar> * (1 / 2 ^ 53)"
    using low by (intro mult_right_mono) auto
  finally have rel: "\<bar>y - x\<bar> \<le> \<bar>x\<bar> / 2 ^ 53" using err by simp
  have nz: "x \<noteq> 0" using assms(1) by auto
  define t where "t = (y - x) / x"
  have "\<bar>t\<bar> = \<bar>y - x\<bar> / \<bar>x\<bar>" unfolding t_def by (simp add: abs_divide)
  also have "\<dots> \<le> (\<bar>x\<bar> / 2 ^ 53) / \<bar>x\<bar>"
    using rel nz by (intro divide_right_mono) auto
  also have "\<dots> = 1 / 2 ^ 53" using nz by simp
  finally have t: "\<bar>t\<bar> \<le> 1 / 2 ^ 53" .
  have "x * (1 + t) = y" unfolding t_def using nz by (simp add: field_simps)
  then show ?thesis using t y by auto
qed

lemma round_f64_small_error:
  assumes "\<bar>x\<bar> < 2 ^ 1023"
  shows "\<exists>y. round_f64 x = Fin y \<and> \<bar>y - x\<bar> \<le> \<bar>x\<bar> / 2 ^ 53 + 1 / 2 ^ 1075"
proof (cases "1 / 2 ^ 1022 \<le> \<bar>x\<bar>")
  case True
  from round_f64_rel_error [OF True assms] obtain t
    where t: "\<bar>t\<bar> \<le> 1 / 2 ^ 53" and r: "round_f64 x = Fin (x * (1 + t))" by auto
  have "\<bar>x * (1 + t) - x\<bar> = \<bar>x\<bar> * \<bar>t\<bar>" by (simp add: algebra_simps abs_mult)
  also have "\<dots> \<le> \<bar>x\<bar> * (1 / 2 ^ 53)" using t by (intro mult_left_mono) auto
  finally show ?thesis using r by auto
next
  case False
  have a1023: "\<bar>x\<bar> < 2 powi 1023" using assms by simp
  then have a1024: "\<bar>x\<bar> < 2 powi 1024"
    using power_int_strict_increasing [of 1023 1024 "2::real"] by simp
  define e where "e = f64_exponent \<bar>x\<bar>"
  have "e = - 1074"
  proof (rule ccontr)
    assume "e \<noteq> - 1074"
    then have g: "- 1074 < e" using f64_exponent_range(1) [OF a1024] unfolding e_def by simp
    then have "2 powi (e + 52) \<le> \<bar>x\<bar>"
      using f64_exponent_range(4) [OF a1024] unfolding e_def by simp
    moreover have "(2::real) powi (- 1022) \<le> 2 powi (e + 52)"
      using g by (intro power_int_increasing) auto
    ultimately show False using False by (simp add: power_int_minus field_simps)
  qed
  then have "(2::real) powi (e - 1) = 1 / 2 ^ 1075" by (simp add: power_int_minus field_simps)
  then show ?thesis using round_f64_abs_error [OF a1023] unfolding e_def
    by (metis abs_ge_zero add_increasing divide_nonneg_pos zero_less_numeral zero_less_power)
qed

lemma round_f64_zero: "round_f64 0 = Fin 0"
  by (simp add: round_f64_def round_half_even_def)

lemma round_f64_of_int:
  assumes "\<bar>n\<bar> \<le> 2 ^ 53"
  shows "round_f64 (of_int n) = Fin (of_int n)"
proof -
  define a :: real where "a = \<bar>of_int n\<bar>"
  define e where "e = f64_exponent a"
  have a53: "a \<le> 2 ^ 53" unfolding a_def using assms
    by (metis of_int_abs of_int_le_numeral_power_cancel_iff)
  have a1024: "a < 2 powi 1024"
  proof -
    have "(2::real) ^ 53 < 2 powi 1024" by simp
    then show ?thesis using a53 by linarith
  qed
  have ex: "\<exists>k::int. a / 2 powi e = of_int k"
  proof (cases "e \<le> 0")
    case True
    have "a / 2 powi e = a * 2 powi (- e)" by (simp add: power_int_minus field_simps)
    also have "\<dots> = of_int \<bar>n\<bar> * 2 ^ nat (- e)"
      using True unfolding a_def by (simp add: power_int_def)
    also have "\<dots> = of_int (\<bar>n\<bar> * 2 ^ nat (- e))" by simp
    finally show ?thesis by blast
  next
    case False
    then have g: "- 1074 < e" by simp
    have low: "2 powi (e + 52) \<le> a"
      using f64_exponent_range(4) [OF a1024] g unfolding e_def by simp
    then have "(2::real) powi (e + 52) \<le> 2 powi 53" using a53 by simp
    then have "e + 52 \<le> 53"
      using power_int_le_imp_le_exp [of "2::real" "e + 52" 53] by simp
    then have e1: "e = 1" using False by simp
    then have "a = 2 ^ 53" using low a53 by simp
    then have "a / 2 powi e = of_int (2 ^ 52)" using e1 by simp
    then show ?thesis by blast
  qed
  then obtain k :: int where k: "a / 2 powi e = of_int k" by blast
  have Y: "of_int (round_half_even (a / 2 powi e)) * 2 powi e = a"
    unfolding k round_half_even_of_int unfolding k [symmetric] by simp
  have "round_f64 (of_int n) = Fin (if (of_int n :: real) < 0 then - a else a)"
    unfolding round_f64_def Let_def a_def [symmetric] e_def [symmetric] Y
    using a1024 by simp
  also have "(if (of_int n :: real) < 0 then - a else a) = of_int n"
    unfolding a_def by simp
  finally show ?thesis .
qed

text \<open>
  A product of a number of ordinary size with a factor of ordinary size is rounded with a
  relative error of at most \<open>2 ^ -53\<close>; integers up to \<open>2 ^ 53\<close> are binary64 numbers.
\<close>

lemma round_f64_scaled:
  assumes "x = 0 \<or> (1 / 2 ^ 900 \<le> \<bar>x\<bar> \<and> \<bar>x\<bar> \<le> 2 ^ 900)"
    and "r = 0 \<or> (1 / 2 ^ 40 \<le> \<bar>r\<bar> \<and> \<bar>r\<bar> \<le> 2 ^ 40)"
  shows "\<exists>t. \<bar>t\<bar> \<le> 1 / 2 ^ 53 \<and> round_f64 (x * r) = Fin (x * r * (1 + t))"
proof (cases "x = 0 \<or> r = 0")
  case True
  then have "round_f64 (x * r) = Fin (x * r * (1 + 0))" by (auto simp: round_f64_zero)
  then show ?thesis by (intro exI [of _ 0]) simp
next
  case False
  then have x: "1 / 2 ^ 900 \<le> \<bar>x\<bar>" "\<bar>x\<bar> \<le> 2 ^ 900"
    and r: "1 / 2 ^ 40 \<le> \<bar>r\<bar>" "\<bar>r\<bar> \<le> 2 ^ 40"
    using assms by auto
  have "(1 / 2 ^ 900) * (1 / 2 ^ 40) \<le> \<bar>x\<bar> * \<bar>r\<bar>"
    using x(1) r(1) by (intro mult_mono) auto
  moreover have "(1::real) / 2 ^ 1022 \<le> (1 / 2 ^ 900) * (1 / 2 ^ 40)" by simp
  ultimately have lo: "1 / 2 ^ 1022 \<le> \<bar>x * r\<bar>" unfolding abs_mult by linarith
  have "\<bar>x\<bar> * \<bar>r\<bar> \<le> 2 ^ 900 * 2 ^ 40"
    using x(2) r(2) by (intro mult_mono) auto
  moreover have "(2::real) ^ 900 * 2 ^ 40 < 2 ^ 1023" by simp
  ultimately have hi: "\<bar>x * r\<bar> < 2 ^ 1023" unfolding abs_mult by linarith
  show ?thesis using round_f64_rel_error [OF lo hi] .
qed

lemma wrap64_small: "0 \<le> x \<Longrightarrow> x < 2 ^ 63 \<Longrightarrow> wrap64 x = x"
  by (simp add: wrap64_def)

lemma f64_of_int_exact: "\<bar>n\<bar> \<le> 2 ^ 53 \<Longrightarrow> f64_of_int n = Fin (of_int n)"
  by (simp add: f64_of_int_def round_f64_of_int)


section \<open>Indicators on constant series\<close>

text \<open>
  The error of the seed (a sum of \<open>j\<close> equal terms, then a division) and of one step of
  the recursion, in terms of the factor by which a value differs from the constant.
\<close>

lemma sum_step:
  fixes s j t :: real
  assumes j: "0 \<le> j" "j \<le> 2 ^ 32"
    and s: "\<bar>s - j\<bar> \<le> j * j / 2 ^ 53"
    and t: "\<bar>t\<bar> \<le> 1 / 2 ^ 53"
  shows "\<bar>(s + 1) * (1 + t) - (j + 1)\<bar> \<le> (j + 1) * (j + 1) / 2 ^ 53"
    and "1 \<le> s + 1" and "s + 1 \<le> 2 ^ 34"
proof -
  have jj: "j * j \<le> j * 2 ^ 32" using j by (intro mult_left_mono) auto
  then have ju: "j * j / 2 ^ 53 \<le> j / 2 ^ 21" by (simp add: field_simps)
  have "j / 2 ^ 21 \<le> j" using j by (simp add: field_simps)
  then have sj: "\<bar>s - j\<bar> \<le> j" using s ju by linarith
  then have s0: "0 \<le> s" "s \<le> 2 * j" by linarith+
  show "1 \<le> s + 1" using s0 by simp
  show "s + 1 \<le> 2 ^ 34" using s0 j by simp
  have "\<bar>(s + 1) * t\<bar> = (s + 1) * \<bar>t\<bar>" using s0 by (simp add: abs_mult)
  also have "\<dots> \<le> (s + 1) * (1 / 2 ^ 53)" using t s0 by (intro mult_left_mono) auto
  also have "\<dots> \<le> (2 * j + 1) / 2 ^ 53"
    using s0 by (simp add: field_simps)
  finally have st: "\<bar>(s + 1) * t\<bar> \<le> (2 * j + 1) / 2 ^ 53" .
  have "(s + 1) * (1 + t) - (j + 1) = (s - j) + (s + 1) * t" by (simp add: algebra_simps)
  then have "\<bar>(s + 1) * (1 + t) - (j + 1)\<bar> \<le> \<bar>s - j\<bar> + \<bar>(s + 1) * t\<bar>" by simp
  also have "\<dots> \<le> j * j / 2 ^ 53 + (2 * j + 1) / 2 ^ 53" using s st by (intro add_mono)
  also have "\<dots> = (j + 1) * (j + 1) / 2 ^ 53" by (simp add: field_simps)
  finally show "\<bar>(s + 1) * (1 + t) - (j + 1)\<bar> \<le> (j + 1) * (j + 1) / 2 ^ 53" .
qed

lemma seed_sum:
  assumes x: "x = 0 \<or> (1 / 2 ^ 900 \<le> \<bar>x\<bar> \<and> \<bar>x\<bar> \<le> 2 ^ 900)"
    and j: "real j \<le> 2 ^ 32"
  shows "\<exists>s. foldl f64_add (Fin 0) (replicate j (Fin x)) = Fin (x * s)
             \<and> \<bar>s - real j\<bar> \<le> real j * real j / 2 ^ 53"
  using j
proof (induction j)
  case 0
  show ?case by (intro exI [of _ 0]) simp
next
  case (Suc j)
  then have j: "real j \<le> 2 ^ 32" by simp
  from Suc.IH [OF j] obtain s
    where f: "foldl f64_add (Fin 0) (replicate j (Fin x)) = Fin (x * s)"
      and s: "\<bar>s - real j\<bar> \<le> real j * real j / 2 ^ 53" by auto
  have s1: "1 \<le> s + 1" "s + 1 \<le> 2 ^ 34"
    using sum_step(2,3) [OF _ j s, of 0] by simp_all
  have "s + 1 = 0 \<or> (1 / 2 ^ 40 \<le> \<bar>s + 1\<bar> \<and> \<bar>s + 1\<bar> \<le> 2 ^ 40)"
    using s1 by simp
  from round_f64_scaled [OF x this] obtain t
    where t: "\<bar>t\<bar> \<le> 1 / 2 ^ 53"
      and r: "round_f64 (x * (s + 1)) = Fin (x * (s + 1) * (1 + t))" by auto
  have "foldl f64_add (Fin 0) (replicate (Suc j) (Fin x))
        = f64_add (foldl f64_add (Fin 0) (replicate j (Fin x))) (Fin x)"
  proof -
    have "replicate (Suc j) (Fin x) = replicate j (Fin x) @ [Fin x]"
      by (simp add: replicate_append_same)
    then show ?thesis unfolding foldl_append by (simp only: foldl_append foldl.simps)
  qed
  also have "\<dots> = round_f64 (x * (s + 1))" unfolding f by (simp add: algebra_simps)
  also have "\<dots> = Fin (x * ((s + 1) * (1 + t)))" unfolding r by (simp add: algebra_simps)
  finally have a: "foldl f64_add (Fin 0) (replicate (Suc j) (Fin x)) = Fin (x * ((s + 1) * (1 + t)))" .
  have "\<bar>(s + 1) * (1 + t) - (real j + 1)\<bar> \<le> (real j + 1) * (real j + 1) / 2 ^ 53"
    using sum_step(1) [OF _ j s t] by simp
  then have b: "\<bar>(s + 1) * (1 + t) - real (Suc j)\<bar> \<le> real (Suc j) * real (Suc j) / 2 ^ 53"
    by (simp add: algebra_simps)
  show ?case using a b by blast
qed

lemma ema_step_bound:
  fixes k c r t1 t2 t3 P :: real
  assumes P: "2 \<le> P" "P \<le> 2 ^ 33"
    and k: "k \<le> 1" "2 / P * (1 - 1 / 2 ^ 53) \<le> k"
    and c: "0 \<le> c" "c \<le> 1" "\<bar>k + c - 1\<bar> \<le> 1 / 2 ^ 53"
    and r: "\<bar>r - 1\<bar> \<le> 4 * P / 2 ^ 53"
    and t: "\<bar>t1\<bar> \<le> 1 / 2 ^ 53" "\<bar>t2\<bar> \<le> 1 / 2 ^ 53" "\<bar>t3\<bar> \<le> 1 / 2 ^ 53"
  shows "\<bar>(k * (1 + t1) + r * c * (1 + t2)) * (1 + t3) - 1\<bar> \<le> 4 * P / 2 ^ 53"
    and "\<bar>k * (1 + t1) + r * c * (1 + t2) - 1\<bar> \<le> 1 / 2"
    and "1 / 2 ^ 34 \<le> k" and "1 / 2 \<le> r" and "r \<le> 2"
proof -
  define u :: real where "u = 1 / 2 ^ 53"
  define B where "B = 4 * P * u"
  have u: "0 < u" "u \<le> 1 / 2 ^ 50" by (simp_all add: u_def)
  have Bu: "B \<le> 1 / 2 ^ 18"
  proof -
    have "B \<le> 4 * 2 ^ 33 * u" unfolding B_def using P u by simp
    also have "\<dots> = 1 / 2 ^ 18" by (simp add: u_def)
    finally show ?thesis .
  qed
  have B0: "0 \<le> B" unfolding B_def using P u by simp
  have kP: "2 / P * (1 - u) \<le> k" using k(2) unfolding u_def .
  have "(1::real) / 2 ^ 34 \<le> 2 / 2 ^ 33 * (1 - u)" unfolding u_def by simp
  also have "\<dots> \<le> 2 / P * (1 - u)"
    using P u by (intro mult_right_mono divide_left_mono) auto
  finally have "(1::real) / 2 ^ 34 \<le> 2 / P * (1 - u)" .
  then show k34: "1 / 2 ^ 34 \<le> k" using kP by linarith
  have "(0::real) < 1 / 2 ^ 34" by simp
  then have k0: "0 < k" using k34 by linarith
  have rB: "\<bar>r - 1\<bar> \<le> B" using r unfolding B_def u_def by simp
  show r1: "1 / 2 \<le> r" and r2: "r \<le> 2" using rB Bu by (simp_all add: abs_le_iff)
  have Bk: "8 * u * (1 - u) \<le> B * k"
  proof -
    have "B * (2 / P * (1 - u)) \<le> B * k" using kP B0 by (intro mult_left_mono)
    moreover have "B * (2 / P * (1 - u)) = 8 * u * (1 - u)"
      unfolding B_def using P by (simp add: field_simps)
    ultimately show ?thesis by simp
  qed
  have p1: "\<bar>k * t1\<bar> \<le> u"
  proof -
    have "\<bar>k * t1\<bar> = k * \<bar>t1\<bar>" using k0 by (simp add: abs_mult)
    also have "\<dots> \<le> 1 * u" using k(1) t(1) k0 unfolding u_def by (intro mult_mono) auto
    finally show ?thesis by simp
  qed
  have kc: "\<bar>k + c - 1\<bar> \<le> u" using c(3) unfolding u_def .
  have cle: "c \<le> 1 - k + u" using kc by linarith
  have p2: "\<bar>(r - 1) * c\<bar> \<le> B - B * k + B * u"
  proof -
    have "\<bar>(r - 1) * c\<bar> = \<bar>r - 1\<bar> * c" using c(1) by (simp add: abs_mult)
    also have "\<dots> \<le> B * (1 - k + u)" using rB cle c(1) B0 by (intro mult_mono) auto
    finally show ?thesis by (simp add: algebra_simps)
  qed
  have p3: "\<bar>r * c * t2\<bar> \<le> 2 * u"
  proof -
    have "\<bar>r * c * t2\<bar> = r * c * \<bar>t2\<bar>" using c(1) r1 by (simp add: abs_mult)
    also have "\<dots> \<le> 2 * 1 * u"
      using r2 r1 c t(2) unfolding u_def by (intro mult_mono) auto
    finally show ?thesis by simp
  qed
  define E where "E = k * t1 + (k + c - 1) + (r - 1) * c + r * c * t2"
  have a: "k * (1 + t1) + r * c * (1 + t2) = 1 + E"
    unfolding E_def by (simp add: algebra_simps)
  have Bu2: "B * u \<le> u / 4"
  proof -
    have "B * u \<le> 1 / 2 ^ 18 * u" using Bu u by (intro mult_right_mono) auto
    also have "\<dots> \<le> u / 4" using u by simp
    finally show ?thesis .
  qed
  have uu: "u * u \<le> u / 16"
  proof -
    have "u * u \<le> 1 / 2 ^ 50 * u" using u by (intro mult_right_mono) auto
    also have "\<dots> \<le> u / 16" using u by simp
    finally show ?thesis .
  qed
  have "\<bar>E\<bar> \<le> \<bar>k * t1\<bar> + \<bar>k + c - 1\<bar> + \<bar>(r - 1) * c\<bar> + \<bar>r * c * t2\<bar>"
    unfolding E_def by linarith
  then have E1: "\<bar>E\<bar> \<le> u + u + (B - B * k + B * u) + 2 * u"
    using p1 kc p2 p3 by linarith
  have Bk': "8 * u - 8 * (u * u) \<le> B * k" using Bk by (simp add: algebra_simps)
  have E2: "\<bar>E\<bar> \<le> B - 3 * u" using E1 Bk' Bu2 uu u by linarith
  have "(1::real) / 2 ^ 18 \<le> 1 / 2" by simp
  then have E3: "\<bar>E\<bar> \<le> 1 / 2" using E2 Bu u by linarith
  show "\<bar>k * (1 + t1) + r * c * (1 + t2) - 1\<bar> \<le> 1 / 2" unfolding a using E3 by simp
  have Et: "\<bar>E * t3\<bar> \<le> u"
  proof -
    have "\<bar>E * t3\<bar> = \<bar>E\<bar> * \<bar>t3\<bar>" by (simp add: abs_mult)
    also have "\<dots> \<le> 1 * u" using E3 t(3) unfolding u_def by (intro mult_mono) auto
    finally show ?thesis by simp
  qed
  have t3: "\<bar>t3\<bar> \<le> u" using t(3) unfolding u_def .
  have "(1 + E) * (1 + t3) - 1 = E + t3 + E * t3" by (simp add: algebra_simps)
  then have "\<bar>(1 + E) * (1 + t3) - 1\<bar> \<le> \<bar>E\<bar> + \<bar>t3\<bar> + \<bar>E * t3\<bar>" by linarith
  then have "\<bar>(1 + E) * (1 + t3) - 1\<bar> \<le> B" using E2 t3 Et by linarith
  then show "\<bar>(k * (1 + t1) + r * c * (1 + t2)) * (1 + t3) - 1\<bar> \<le> 4 * P / 2 ^ 53"
    unfolding a B_def u_def by simp
qed

lemma ema_k:
  assumes p: "1 \<le> p" "p \<le> 2 ^ 32"
  shows "\<exists>k c. f64_div (Fin 2) (f64_of_int (wrap64 (p + 1))) = Fin k
           \<and> f64_sub (Fin 1) (Fin k) = Fin c
           \<and> k \<le> 1 \<and> 2 / (of_int p + 1) * (1 - 1 / 2 ^ 53) \<le> k
           \<and> 0 \<le> c \<and> c \<le> 1 \<and> (c = 0 \<or> 1 / 8 \<le> c) \<and> \<bar>k + c - 1\<bar> \<le> 1 / 2 ^ 53"
proof -
  define z :: real where "z = 2 / (of_int p + 1)"
  have w: "wrap64 (p + 1) = p + 1" using p by (intro wrap64_small) auto
  have fi: "f64_of_int (p + 1) = Fin (of_int p + 1)"
    using f64_of_int_exact [of "p + 1"] p by simp
  have pr: "(1::real) \<le> of_int p" "(of_int p :: real) \<le> 2 ^ 32"
    using p by (simp_all add: of_int_le_numeral_power_cancel_iff [symmetric] del: of_int_le_numeral_power_cancel_iff)
  have d: "f64_div (Fin 2) (f64_of_int (wrap64 (p + 1))) = round_f64 z"
    unfolding w fi z_def using pr by (simp add: f64_div_def)
  show ?thesis
  proof (cases "p = 1")
    case True
    have "round_f64 z = Fin 1"
      using round_f64_of_int [of 1] unfolding z_def True by simp
    moreover have "f64_sub (Fin 1) (Fin 1) = Fin 0"
      by (simp add: f64_sub_def round_f64_zero)
    ultimately show ?thesis
      unfolding d using True by (intro exI [of _ 1] exI [of _ 0]) simp
  next
    case False
    then have p2: "(2::real) \<le> of_int p" using p by simp
    have z1: "z \<le> 2 / 3" unfolding z_def using p2 by (simp add: field_simps)
    have z0: "1 / 2 ^ 32 \<le> z"
    proof -
      have "(1::real) / 2 ^ 32 \<le> 2 / (2 ^ 32 + 1)" by simp
      also have "\<dots> \<le> 2 / (of_int p + 1)"
        using pr by (intro divide_left_mono) auto
      finally show ?thesis unfolding z_def .
    qed
    have "(1::real) / 2 ^ 1022 \<le> 1 / 2 ^ 32" by simp
    then have lo: "1 / 2 ^ 1022 \<le> \<bar>z\<bar>" using z0 by linarith
    have "(1::real) < 2 ^ 1023" by simp
    then have hi: "\<bar>z\<bar> < 2 ^ 1023" using z1 z0 by (simp add: abs_if)
    from round_f64_rel_error [OF lo hi] obtain t
      where t: "\<bar>t\<bar> \<le> 1 / 2 ^ 53" and rk: "round_f64 z = Fin (z * (1 + t))" by auto
    define u :: real where "u = 1 / 2 ^ 53"
    have u: "0 < u" "u \<le> 1 / 2 ^ 50" by (simp_all add: u_def)
    have tu: "\<bar>t\<bar> \<le> u" using t unfolding u_def .
    define k where "k = z * (1 + t)"
    have zpos: "0 < z"
    proof -
      have "(0::real) < 1 / 2 ^ 32" by simp
      then show ?thesis using z0 by linarith
    qed
    have zt: "\<bar>z * t\<bar> \<le> z * u"
    proof -
      have "\<bar>z * t\<bar> = z * \<bar>t\<bar>" using zpos by (simp add: abs_mult)
      also have "\<dots> \<le> z * u" using tu zpos by (intro mult_left_mono) auto
      finally show ?thesis .
    qed
    have kz: "k = z + z * t" unfolding k_def by (simp add: algebra_simps)
    have zu: "z * u \<le> u" using z1 u by (simp add: mult_left_le_one_le)
    have klow: "z * (1 - u) \<le> k" using zt unfolding kz by (simp add: algebra_simps abs_le_iff)
    have "(1::real) / 2 ^ 50 \<le> 1 / 12" by simp
    then have u12: "u \<le> 1 / 12" using u by linarith
    have khigh: "k \<le> 3 / 4" using zt zu z1 u12 unfolding kz by (simp add: abs_le_iff)
    have "(1::real) / 2 ^ 50 \<le> 1 / 2 ^ 33" by simp
    then have u33: "u \<le> 1 / 2 ^ 33" using u by linarith
    have kpos: "u \<le> k"
    proof -
      have "1 / 2 ^ 32 * (1 / 2) \<le> z * (1 - u)"
        using z0 u12 by (intro mult_mono) auto
      then have "1 / 2 ^ 33 \<le> z * (1 - u)" by simp
      then show ?thesis using klow u33 by linarith
    qed
    have lo2: "1 / 2 ^ 1022 \<le> \<bar>1 + - k\<bar>"
    proof -
      have "(1::real) / 2 ^ 1022 \<le> 1 / 4" by simp
      then show ?thesis using khigh by linarith
    qed
    have hi2: "\<bar>1 + - k\<bar> < 2 ^ 1023"
    proof -
      have "(1::real) < 2 ^ 1023" by simp
      then show ?thesis using khigh kpos u by linarith
    qed
    from round_f64_rel_error [OF lo2 hi2] obtain t'
      where t': "\<bar>t'\<bar> \<le> 1 / 2 ^ 53" and rc: "round_f64 (1 + - k) = Fin ((1 + - k) * (1 + t'))"
      by auto
    have tu': "\<bar>t'\<bar> \<le> u" using t' unfolding u_def .
    define c where "c = (1 + - k) * (1 + t')"
    have ck: "c = (1 - k) + (1 - k) * t'" unfolding c_def by (simp add: algebra_simps)
    have kt: "\<bar>(1 - k) * t'\<bar> \<le> (1 - k) * u"
    proof -
      have "\<bar>(1 - k) * t'\<bar> = (1 - k) * \<bar>t'\<bar>" using khigh by (simp add: abs_mult)
      also have "\<dots> \<le> (1 - k) * u" using tu' khigh by (intro mult_left_mono) auto
      finally show ?thesis .
    qed
    have ku: "(1 - k) * u \<le> u" using kpos u by (simp add: mult_left_le_one_le)
    have ku8: "(1 - k) * u \<le> 1 / 8" using ku u12 by linarith
    have c1: "1 / 8 \<le> c" using kt ku8 khigh unfolding ck by (simp add: abs_le_iff)
    have c2: "c \<le> 1" using kt ku kpos unfolding ck by (simp add: abs_le_iff)
    have c3: "\<bar>k + c - 1\<bar> \<le> u"
    proof -
      have "k + c - 1 = (1 - k) * t'" unfolding ck by simp
      then show ?thesis using kt ku by linarith
    qed
    have sub: "f64_sub (Fin 1) (Fin k) = Fin c"
      unfolding c_def rc [symmetric] by (simp add: f64_sub_def)
    have dk: "f64_div (Fin 2) (f64_of_int (wrap64 (p + 1))) = Fin k"
      unfolding d rk k_def ..
    have kl: "2 / (of_int p + 1) * (1 - 1 / 2 ^ 53) \<le> k"
      using klow unfolding z_def u_def .
    have "k \<le> 1" using khigh by simp
    moreover have "0 \<le> c" using c1 by simp
    moreover have "\<bar>k + c - 1\<bar> \<le> 1 / 2 ^ 53" using c3 unfolding u_def .
    ultimately show ?thesis using dk sub kl c1 c2 by blast
  qed
qed

lemma seed_div:
  assumes x: "x = 0 \<or> (1 / 2 ^ 900 \<le> \<bar>x\<bar> \<and> \<bar>x\<bar> \<le> 2 ^ 900)"
    and m: "1 \<le> m" "m \<le> 2 ^ 32"
    and s: "\<bar>s - of_int m\<bar> \<le> of_int m * of_int m / 2 ^ 53"
  shows "\<exists>r. f64_div (Fin (x * s)) (f64_of_int m) = Fin (x * r)
             \<and> \<bar>r - 1\<bar> \<le> (of_int m + 2) / 2 ^ 53"
proof -
  define M :: real where "M = of_int m"
  define u :: real where "u = 1 / 2 ^ 53"
  define q where "q = s / M"
  have u: "0 < u" by (simp add: u_def)
  have M: "1 \<le> M" "M \<le> 2 ^ 32"
    using m unfolding M_def
    by (simp_all add: of_int_le_numeral_power_cancel_iff [symmetric] del: of_int_le_numeral_power_cancel_iff)
  have fi: "f64_of_int m = Fin M" unfolding M_def using f64_of_int_exact [of m] m by simp
  have d: "f64_div (Fin (x * s)) (f64_of_int m) = round_f64 (x * q)"
    unfolding fi q_def using M by (simp add: f64_div_def)
  have sM: "\<bar>s - M\<bar> \<le> M * M * u" using s unfolding M_def u_def by simp
  have q: "\<bar>q - 1\<bar> \<le> M * u"
  proof -
    have "q - 1 = (s - M) / M" unfolding q_def using M by (simp add: field_simps)
    then have "\<bar>q - 1\<bar> = \<bar>s - M\<bar> / M" using M by (simp add: abs_divide)
    also have "\<dots> \<le> (M * M * u) / M" using sM M by (intro divide_right_mono) auto
    also have "\<dots> = M * u" using M by simp
    finally show ?thesis .
  qed
  have Mu: "M * u \<le> 1 / 2 ^ 21"
  proof -
    have "M * u \<le> 2 ^ 32 * u" using M u by (intro mult_right_mono) auto
    also have "\<dots> = 1 / 2 ^ 21" by (simp add: u_def)
    finally show ?thesis .
  qed
  have "(1::real) / 2 ^ 21 \<le> 1 / 2" by simp
  then have q2: "1 / 2 \<le> q" "q \<le> 2" using q Mu by linarith+
  have "(1::real) / 2 ^ 40 \<le> 1 / 2" "(2::real) \<le> 2 ^ 40" by simp_all
  then have "q = 0 \<or> (1 / 2 ^ 40 \<le> \<bar>q\<bar> \<and> \<bar>q\<bar> \<le> 2 ^ 40)"
    using q2 by linarith
  from round_f64_scaled [OF x this] obtain t
    where t: "\<bar>t\<bar> \<le> 1 / 2 ^ 53"
      and r: "round_f64 (x * q) = Fin (x * q * (1 + t))" by auto
  have tu: "\<bar>t\<bar> \<le> u" using t unfolding u_def .
  have qt: "\<bar>q * t\<bar> \<le> 2 * u"
  proof -
    have aq: "\<bar>q\<bar> \<le> 2" using q2 by linarith
    have "\<bar>q * t\<bar> = \<bar>q\<bar> * \<bar>t\<bar>" by (rule abs_mult)
    also have "\<dots> \<le> 2 * u" using aq tu by (intro mult_mono) auto
    finally show ?thesis .
  qed
  have "q * (1 + t) - 1 = (q - 1) + q * t" by (simp add: algebra_simps)
  then have "\<bar>q * (1 + t) - 1\<bar> \<le> M * u + 2 * u" using q qt by linarith
  also have "M * u + 2 * u = (of_int m + 2) / 2 ^ 53"
    unfolding M_def u_def by (simp add: algebra_simps add_divide_distrib)
  finally have b: "\<bar>q * (1 + t) - 1\<bar> \<le> (of_int m + 2) / 2 ^ 53" .
  have "f64_div (Fin (x * s)) (f64_of_int m) = Fin (x * (q * (1 + t)))"
    unfolding d r by (simp add: algebra_simps)
  then show ?thesis using b by blast
qed

lemma ema_loop_const:
  assumes x: "x = 0 \<or> (1 / 2 ^ 900 \<le> \<bar>x\<bar> \<and> \<bar>x\<bar> \<le> 2 ^ 900)"
    and P: "2 \<le> P" "P \<le> 2 ^ 33"
    and k: "k \<le> 1" "2 / P * (1 - 1 / 2 ^ 53) \<le> k"
    and c: "0 \<le> c" "c \<le> 1" "\<bar>k + c - 1\<bar> \<le> 1 / 2 ^ 53"
    and c0: "c = 0 \<or> 1 / 8 \<le> c"
    and sub: "f64_sub (Fin 1) (Fin k) = Fin c"
    and r: "\<bar>r - 1\<bar> \<le> 4 * P / 2 ^ 53"
  shows "length (ema_loop (Fin k) (Fin (x * r)) (replicate j (Fin x))) = j
       \<and> (\<forall>y\<in>set (ema_loop (Fin k) (Fin (x * r)) (replicate j (Fin x))).
             \<exists>r'. y = Fin (x * r') \<and> \<bar>r' - 1\<bar> \<le> 4 * P / 2 ^ 53)"
  using r
proof (induction j arbitrary: r)
  case 0
  show ?case by simp
next
  case (Suc j)
  note r = Suc.prems
  have z: "\<bar>0::real\<bar> \<le> 1 / 2 ^ 53" by simp
  have k34: "1 / 2 ^ 34 \<le> k" and r1: "1 / 2 \<le> r" and r2: "r \<le> 2"
    using ema_step_bound(3,4,5) [OF P k c r z z z] by simp_all
  have "(1::real) / 2 ^ 40 \<le> 1 / 2 ^ 34" "(1::real) \<le> 2 ^ 40" "(0::real) < 1 / 2 ^ 40"
    by simp_all
  then have "1 / 2 ^ 40 \<le> \<bar>k\<bar> \<and> \<bar>k\<bar> \<le> 2 ^ 40"
    using k34 k(1) by linarith
  then have "k = 0 \<or> (1 / 2 ^ 40 \<le> \<bar>k\<bar> \<and> \<bar>k\<bar> \<le> 2 ^ 40)" ..
  from round_f64_scaled [OF x this] obtain t1
    where t1: "\<bar>t1\<bar> \<le> 1 / 2 ^ 53"
      and e1: "round_f64 (x * k) = Fin (x * k * (1 + t1))" by auto
  have "r * c = 0 \<or> (1 / 2 ^ 40 \<le> \<bar>r * c\<bar> \<and> \<bar>r * c\<bar> \<le> 2 ^ 40)"
  proof (cases "c = 0")
    case True
    then show ?thesis by simp
  next
    case False
    then have c8: "1 / 8 \<le> c" using c0 by simp
    have "1 / 2 * (1 / 8) \<le> r * c" using r1 c8 by (intro mult_mono) auto
    moreover have "r * c \<le> 2 * 1" using r1 r2 c by (intro mult_mono) auto
    moreover have "(1::real) / 2 ^ 40 \<le> 1 / 2 * (1 / 8)" "(2::real) * 1 \<le> 2 ^ 40"
      "(0::real) < 1 / 2 ^ 40" by simp_all
    ultimately have "1 / 2 ^ 40 \<le> \<bar>r * c\<bar> \<and> \<bar>r * c\<bar> \<le> 2 ^ 40" by linarith
    then show ?thesis ..
  qed
  from round_f64_scaled [OF x this] obtain t2
    where t2: "\<bar>t2\<bar> \<le> 1 / 2 ^ 53"
      and e2: "round_f64 (x * (r * c)) = Fin (x * (r * c) * (1 + t2))" by auto
  define a where "a = k * (1 + t1) + r * c * (1 + t2)"
  have a1: "\<bar>a - 1\<bar> \<le> 1 / 2"
    unfolding a_def using ema_step_bound(2) [OF P k c r t1 t2 z] .
  have "(1::real) / 2 ^ 40 \<le> 1 / 2" "(3::real) / 2 \<le> 2 ^ 40" by simp_all
  then have "1 / 2 ^ 40 \<le> \<bar>a\<bar> \<and> \<bar>a\<bar> \<le> 2 ^ 40"
    using a1 by linarith
  then have "a = 0 \<or> (1 / 2 ^ 40 \<le> \<bar>a\<bar> \<and> \<bar>a\<bar> \<le> 2 ^ 40)" ..
  from round_f64_scaled [OF x this] obtain t3
    where t3: "\<bar>t3\<bar> \<le> 1 / 2 ^ 53"
      and e3: "round_f64 (x * a) = Fin (x * a * (1 + t3))" by auto
  define r' where "r' = a * (1 + t3)"
  have r': "\<bar>r' - 1\<bar> \<le> 4 * P / 2 ^ 53"
    unfolding r'_def a_def using ema_step_bound(1) [OF P k c r t1 t2 t3] .
  have m1: "f64_mul (Fin x) (Fin k) = Fin (x * k * (1 + t1))"
    unfolding e1 [symmetric] by (simp add: f64_mul_def)
  have m2: "f64_mul (Fin (x * r)) (Fin c) = Fin (x * (r * c) * (1 + t2))"
    unfolding e2 [symmetric] by (simp add: f64_mul_def mult.assoc)
  have "x * k * (1 + t1) + x * (r * c) * (1 + t2) = x * a"
    unfolding a_def by (simp add: algebra_simps)
  then have y: "f64_add (f64_mul (Fin x) (Fin k)) (f64_mul (Fin (x * r)) (f64_sub (Fin 1) (Fin k)))
             = Fin (x * r')"
    unfolding sub m1 m2 r'_def using e3 by (simp add: mult.assoc)
  have "ema_loop (Fin k) (Fin (x * r)) (replicate (Suc j) (Fin x))
        = Fin (x * r') # ema_loop (Fin k) (Fin (x * r')) (replicate j (Fin x))"
    using y by (simp add: Let_def)
  then show ?case using Suc.IH [OF r'] r' by auto
qed

lemma EMA_constant:
  assumes x: "x = 0 \<or> (1 / 2 ^ 900 \<le> \<bar>x\<bar> \<and> \<bar>x\<bar> \<le> 2 ^ 900)"
    and n: "0 < n" and p: "1 \<le> p" "p \<le> 2 ^ 32"
  shows "length (EMA (replicate n (Fin x)) p) = n
       \<and> (\<forall>y\<in>set (EMA (replicate n (Fin x)) p).
             \<exists>r. y = Fin (x * r) \<and> \<bar>r - 1\<bar> \<le> 4 * (of_int p + 1) / 2 ^ 53)"
proof -
  define m where "m = (if int n < p then int n else p)"
  define P :: real where "P = of_int p + 1"
  have m: "1 \<le> m" "m \<le> p" "m \<le> int n" "m \<le> 2 ^ 32" using n p by (simp_all add: m_def)
  have pr: "(1::real) \<le> of_int p" "(of_int p :: real) \<le> 2 ^ 32"
    using p by (simp_all add: of_int_le_numeral_power_cancel_iff [symmetric] del: of_int_le_numeral_power_cancel_iff)
  have P: "2 \<le> P" "P \<le> 2 ^ 33" using pr unfolding P_def by simp_all
  from ema_k [OF p] obtain k c
    where dk: "f64_div (Fin 2) (f64_of_int (wrap64 (p + 1))) = Fin k"
      and sub: "f64_sub (Fin 1) (Fin k) = Fin c"
      and k: "k \<le> 1" "2 / P * (1 - 1 / 2 ^ 53) \<le> k"
      and c: "0 \<le> c" "c \<le> 1" "\<bar>k + c - 1\<bar> \<le> 1 / 2 ^ 53"
      and c0: "c = 0 \<or> 1 / 8 \<le> c"
    unfolding P_def by blast
  have tk: "take (nat m) (replicate n (Fin x)) = replicate (nat m) (Fin x)"
    using m by (simp add: min_def)
  have mr: "real (nat m) = of_int m" using m by simp
  have "real (nat m) \<le> 2 ^ 32"
    unfolding mr using m(4)
    by (simp add: of_int_le_numeral_power_cancel_iff [symmetric] del: of_int_le_numeral_power_cancel_iff)
  from seed_sum [OF x this] obtain s
    where sd: "foldl f64_add (Fin 0) (replicate (nat m) (Fin x)) = Fin (x * s)"
      and s: "\<bar>s - of_int m\<bar> \<le> of_int m * of_int m / 2 ^ 53"
    unfolding mr by auto
  from seed_div [OF x m(1) m(4) s] obtain r
    where o: "f64_div (Fin (x * s)) (f64_of_int m) = Fin (x * r)"
      and r0: "\<bar>r - 1\<bar> \<le> (of_int m + 2) / 2 ^ 53" by auto
  have "(of_int m :: real) \<le> of_int p" using m(2) by simp
  then have "(of_int m + 2) / 2 ^ 53 \<le> 4 * P / (2 ^ 53 :: real)"
    unfolding P_def using pr by (intro divide_right_mono) auto
  then have r: "\<bar>r - 1\<bar> \<le> 4 * P / 2 ^ 53" using r0 by linarith
  have tl: "tl (replicate n (Fin x)) = replicate (n - 1) (Fin x)"
    by (cases n) simp_all
  have "EMA (replicate n (Fin x)) p
        = f64_div (foldl f64_add (Fin 0) (take (nat m) (replicate n (Fin x)))) (f64_of_int m) #
          ema_loop (f64_div (Fin 2) (f64_of_int (wrap64 (p + 1))))
            (f64_div (foldl f64_add (Fin 0) (take (nat m) (replicate n (Fin x)))) (f64_of_int m))
            (tl (replicate n (Fin x)))"
    using n p unfolding EMA_def Let_def m_def by simp
  then have E: "EMA (replicate n (Fin x)) p
           = Fin (x * r) # ema_loop (Fin k) (Fin (x * r)) (replicate (n - 1) (Fin x))"
    unfolding tk sd o dk tl .
  from ema_loop_const [OF x P k c c0 sub r, of "n - 1"]
  show ?thesis unfolding E P_def using n r [unfolded P_def] by auto
qed

lemma macd_loop_map:
  "\<forall>i\<in>set is. i < length e12 \<and> i < length e26 \<Longrightarrow>
   macd_loop e12 e26 is = Some (map (\<lambda>i. f64_sub (e12 ! i) (e26 ! i)) is)"
  by (induction "is") (simp_all add: go_index_def)

lemma f64_sub_close:
  assumes x: "x = 0 \<or> (1 / 2 ^ 900 \<le> \<bar>x\<bar> \<and> \<bar>x\<bar> \<le> 2 ^ 900)"
    and r1: "\<bar>r1 - 1\<bar> \<le> 52 / 2 ^ 53" and r2: "\<bar>r2 - 1\<bar> \<le> 108 / 2 ^ 53"
  shows "\<exists>y. f64_sub (Fin (x * r1)) (Fin (x * r2)) = Fin y \<and> \<bar>y\<bar> \<le> 161 / 2 ^ 53 * \<bar>x\<bar>"
proof (cases "x = 0")
  case True
  then show ?thesis by (simp add: f64_sub_def round_f64_zero)
next
  case False
  then have xr: "1 / 2 ^ 900 \<le> \<bar>x\<bar>" "\<bar>x\<bar> \<le> 2 ^ 900" using x by auto
  define u :: real where "u = 1 / 2 ^ 53"
  define z where "z = x * r1 + - (x * r2)"
  have u: "0 < u" by (simp add: u_def)
  have "\<bar>r1 - r2\<bar> \<le> \<bar>r1 - 1\<bar> + \<bar>r2 - 1\<bar>" by linarith
  also have "\<dots> \<le> 52 / 2 ^ 53 + 108 / 2 ^ 53" using r1 r2 by (intro add_mono)
  also have "\<dots> = 160 * u" by (simp add: u_def)
  finally have d: "\<bar>r1 - r2\<bar> \<le> 160 * u" .
  have "z = x * (r1 - r2)" unfolding z_def by (simp add: algebra_simps)
  then have "\<bar>z\<bar> = \<bar>x\<bar> * \<bar>r1 - r2\<bar>" by (simp add: abs_mult)
  also have "\<dots> \<le> \<bar>x\<bar> * (160 * u)" using d by (intro mult_left_mono) auto
  finally have zb: "\<bar>z\<bar> \<le> 160 * (\<bar>x\<bar> * u)" by (simp add: algebra_simps)
  have xu: "\<bar>x\<bar> * u \<le> 2 ^ 900 * u" using xr u by (intro mult_right_mono) auto
  have "160 * ((2::real) ^ 900 * u) < 2 ^ 1023" by (simp add: u_def)
  then have hi: "\<bar>z\<bar> < 2 ^ 1023" using zb xu by linarith
  from round_f64_small_error [OF hi] obtain y
    where y: "round_f64 z = Fin y" and e: "\<bar>y - z\<bar> \<le> \<bar>z\<bar> / 2 ^ 53 + 1 / 2 ^ 1075" by auto
  have z53: "\<bar>z\<bar> / 2 ^ 53 \<le> \<bar>x\<bar> * u / 2"
  proof -
    have "\<bar>z\<bar> / 2 ^ 53 \<le> 160 * (\<bar>x\<bar> * u) / 2 ^ 53" using zb by (intro divide_right_mono) auto
    also have "\<dots> = (\<bar>x\<bar> * u) * (160 / 2 ^ 53)" by simp
    also have "\<dots> \<le> (\<bar>x\<bar> * u) * (1 / 2)" using u by (intro mult_left_mono) auto
    finally show ?thesis by simp
  qed
  have tiny: "1 / 2 ^ 1075 \<le> \<bar>x\<bar> * u / 2"
  proof -
    have "(1::real) / 2 ^ 1075 \<le> 1 / 2 ^ 900 * u / 2" by (simp add: u_def)
    also have "\<dots> \<le> \<bar>x\<bar> * u / 2" using xr u by (intro divide_right_mono mult_right_mono) auto
    finally show ?thesis .
  qed
  have "\<bar>y\<bar> \<le> \<bar>z\<bar> + \<bar>y - z\<bar>" by linarith
  then have "\<bar>y\<bar> \<le> 161 * (\<bar>x\<bar> * u)" using zb e z53 tiny by linarith
  then have "\<bar>y\<bar> \<le> 161 / 2 ^ 53 * \<bar>x\<bar>" unfolding u_def by (simp add: algebra_simps)
  moreover have "f64_sub (Fin (x * r1)) (Fin (x * r2)) = Fin y"
    unfolding y [symmetric] z_def by (simp add: f64_sub_def)
  ultimately show ?thesis by blast
qed

lemma MACD_constant:
  assumes x: "x = 0 \<or> (1 / 2 ^ 900 \<le> \<bar>x\<bar> \<and> \<bar>x\<bar> \<le> 2 ^ 900)"
  shows "\<exists>out. MACD (replicate n (Fin x)) = Some out \<and> length out = n
           \<and> (\<forall>i<n. \<exists>y. out ! i = Fin y \<and> \<bar>y\<bar> \<le> 161 / 2 ^ 53 * \<bar>x\<bar>)"
proof (cases n)
  case 0
  then show ?thesis by (simp add: MACD_def EMA_def)
next
  case (Suc n')
  then have n: "0 < n" by simp
  define e12 where "e12 = EMA (replicate n (Fin x)) 12"
  define e26 where "e26 = EMA (replicate n (Fin x)) 26"
  have a: "length e12 = n"
    and a': "\<forall>y\<in>set e12. \<exists>r. y = Fin (x * r) \<and> \<bar>r - 1\<bar> \<le> 52 / 2 ^ 53"
    using EMA_constant [OF x n, of 12] unfolding e12_def by simp_all
  have b: "length e26 = n"
    and b': "\<forall>y\<in>set e26. \<exists>r. y = Fin (x * r) \<and> \<bar>r - 1\<bar> \<le> 108 / 2 ^ 53"
    using EMA_constant [OF x n, of 26] unfolding e26_def by simp_all
  define out where "out = map (\<lambda>i. f64_sub (e12 ! i) (e26 ! i)) [0..<n]"
  have m: "MACD (replicate n (Fin x)) = Some out"
    unfolding MACD_def Let_def e12_def [symmetric] e26_def [symmetric] out_def
    using a b by (simp add: macd_loop_map)
  have "\<exists>y. out ! i = Fin y \<and> \<bar>y\<bar> \<le> 161 / 2 ^ 53 * \<bar>x\<bar>" if i: "i < n" for i
  proof -
    have "e12 ! i \<in> set e12" "e26 ! i \<in> set e26" using a b i by simp_all
    then obtain r1 r2
      where r1: "e12 ! i = Fin (x * r1)" "\<bar>r1 - 1\<bar> \<le> 52 / 2 ^ 53"
        and r2: "e26 ! i = Fin (x * r2)" "\<bar>r2 - 1\<bar> \<le> 108 / 2 ^ 53"
      using a' b' by blast
    have "out ! i = f64_sub (Fin (x * r1)) (Fin (x * r2))"
      unfolding out_def using i r1(1) r2(1) by simp
    then show ?thesis using f64_sub_close [OF x r1(2) r2(2)] by simp
  qed
  then show ?thesis using m by (auto simp: out_def)
qed

text \<open>
  C7 as stated, refuted.  In binary64 arithmetic the average of a constant series is
  not always the constant.  For the series 0.1, 0.1, 0.1 (the binary64 number nearest to
  0.1) and the period 3 the seed sum is 0.30000000000000004 and a third of it is
  0.10000000000000002, the binary64 number next above 0.1, so \<open>EMA\<close> is not 0.1 at
  index 0.  For the series 0.7, 0.7, 0.7 \<open>MACD\<close> is not the zero series: its entries
  are 0, \<open>2 ^ -53\<close> and \<open>2 ^ -53\<close>.
\<close>

theorem EMA_constant_series_inexact:
  "round_f64 (1 / 10) = Fin f64_tenth
   \<and> EMA [Fin f64_tenth, Fin f64_tenth, Fin f64_tenth] 3
       = [Fin (f64_tenth + 1 / 2 ^ 56), Fin f64_tenth, Fin f64_tenth]
   \<and> f64_tenth + 1 / 2 ^ 56 \<noteq> f64_tenth
   \<and> round_f64 (7 / 10) = Fin f64_seven_tenths
   \<and> MACD [Fin f64_seven_tenths, Fin f64_seven_tenths, Fin f64_seven_tenths]
       = Some [Fin 0, Fin (1 / 2 ^ 53), Fin (1 / 2 ^ 53)]"
proof -
  have t: "round_f64 (1 / 10) = Fin f64_tenth"
    by (simp add: round_f64_eval [where e = "- 56"] round_half_even_def f64_tenth_def)
  have a0: "round_f64 4 = Fin 4"
    by (simp add: round_f64_eval [where e = "- 50"] round_half_even_def)
  have a1: "round_f64 (1 / 2) = Fin (1 / 2)"
    by (simp add: round_f64_eval [where e = "- 53"] round_half_even_def)
  have a2: "round_f64 (3602879701896397 / 36028797018963968) = Fin (3602879701896397 / 36028797018963968)"
    by (simp add: round_f64_eval [where e = "- 56"] round_half_even_def)
  have a3: "round_f64 (3602879701896397 / 18014398509481984) = Fin (3602879701896397 / 18014398509481984)"
    by (simp add: round_f64_eval [where e = "- 55"] round_half_even_def)
  have a4: "round_f64 (10808639105689191 / 36028797018963968) = Fin (1351079888211149 / 4503599627370496)"
    by (simp add: round_f64_eval [where e = "- 54"] round_half_even_def)
  have a5: "round_f64 3 = Fin 3"
    by (simp add: round_f64_eval [where e = "- 51"] round_half_even_def)
  have a6: "round_f64 (1351079888211149 / 13510798882111488) = Fin (7205759403792795 / 72057594037927936)"
    by (simp add: round_f64_eval [where e = "- 56"] round_half_even_def)
  have a7: "round_f64 (3602879701896397 / 72057594037927936) = Fin (3602879701896397 / 72057594037927936)"
    by (simp add: round_f64_eval [where e = "- 57"] round_half_even_def)
  have a8: "round_f64 (7205759403792795 / 144115188075855872) = Fin (7205759403792795 / 144115188075855872)"
    by (simp add: round_f64_eval [where e = "- 57"] round_half_even_def)
  have a9: "round_f64 (14411518807585589 / 144115188075855872) = Fin (3602879701896397 / 36028797018963968)"
    by (simp add: round_f64_eval [where e = "- 56"] round_half_even_def)
  have e: "EMA [Fin f64_tenth, Fin f64_tenth, Fin f64_tenth] 3
       = [Fin (f64_tenth + 1 / 2 ^ 56), Fin f64_tenth, Fin f64_tenth]"
    by (simp add: EMA_def Let_def f64_div_def f64_mul_def f64_sub_def f64_of_int_def wrap64_def
          f64_tenth_def a0 a1 a2 a3 a4 a5 a6 a7 a8 a9)
  have s: "round_f64 (7 / 10) = Fin f64_seven_tenths"
    by (simp add: round_f64_eval [where e = "- 53"] round_half_even_def f64_seven_tenths_def)
  have b0: "round_f64 13 = Fin 13"
    by (simp add: round_f64_eval [where e = "- 49"] round_half_even_def)
  have b1: "round_f64 (2 / 13) = Fin (1385722962267845 / 9007199254740992)"
    by (simp add: round_f64_eval [where e = "- 55"] round_half_even_def)
  have b2: "round_f64 (3152519739159347 / 4503599627370496) = Fin (3152519739159347 / 4503599627370496)"
    by (simp add: round_f64_eval [where e = "- 53"] round_half_even_def)
  have b3: "round_f64 (3152519739159347 / 2251799813685248) = Fin (3152519739159347 / 2251799813685248)"
    by (simp add: round_f64_eval [where e = "- 52"] round_half_even_def)
  have b4: "round_f64 (9457559217478041 / 4503599627370496) = Fin (1182194902184755 / 562949953421312)"
    by (simp add: round_f64_eval [where e = "- 51"] round_half_even_def)
  have b5: "round_f64 3 = Fin 3"
    by (simp add: round_f64_eval [where e = "- 51"] round_half_even_def)
  have b6: "round_f64 (1182194902184755 / 1688849860263936) = Fin (6305039478318693 / 9007199254740992)"
    by (simp add: round_f64_eval [where e = "- 53"] round_half_even_def)
  have b7: "round_f64 (7621476292473147 / 9007199254740992) = Fin (7621476292473147 / 9007199254740992)"
    by (simp add: round_f64_eval [where e = "- 53"] round_half_even_def)
  have b8: "round_f64 (4368518991555744364360949297215 / 40564819207303340847894502572032) = Fin (1940012147174983 / 18014398509481984)"
    by (simp add: round_f64_eval [where e = "- 56"] round_half_even_def)
  have b9: "round_f64 (48053708907113177233974410636871 / 81129638414606681695789005144064) = Fin (2667516702365601 / 4503599627370496)"
    by (simp add: round_f64_eval [where e = "- 53"] round_half_even_def)
  have b10: "round_f64 (12610078956637387 / 18014398509481984) = Fin (3152519739159347 / 4503599627370496)"
    by (simp add: round_f64_eval [where e = "- 53"] round_half_even_def)
  have b11: "round_f64 (24026854453556592427725351555009 / 40564819207303340847894502572032) = Fin (5335033404731203 / 9007199254740992)"
    by (simp add: round_f64_eval [where e = "- 53"] round_half_even_def)
  have b12: "round_f64 (12610078956637389 / 18014398509481984) = Fin (3152519739159347 / 4503599627370496)"
    by (simp add: round_f64_eval [where e = "- 53"] round_half_even_def)
  have b13: "round_f64 27 = Fin 27"
    by (simp add: round_f64_eval [where e = "- 48"] round_half_even_def)
  have b14: "round_f64 (2 / 27) = Fin (667199944795629 / 9007199254740992)"
    by (simp add: round_f64_eval [where e = "- 56"] round_half_even_def)
  have b15: "round_f64 (8339999309945363 / 9007199254740992) = Fin (8339999309945363 / 9007199254740992)"
    by (simp add: round_f64_eval [where e = "- 53"] round_half_even_def)
  have b16: "round_f64 (2103360995934247053024180094263 / 40564819207303340847894502572032) = Fin (1868159845427761 / 36028797018963968)"
    by (simp add: round_f64_eval [where e = "- 57"] round_half_even_def)
  have b17: "round_f64 (52584024898356171138124931570559 / 81129638414606681695789005144064) = Fin (5837999516961753 / 9007199254740992)"
    by (simp add: round_f64_eval [where e = "- 53"] round_half_even_def)
  have b18: "round_f64 (25220157913274773 / 36028797018963968) = Fin (6305039478318693 / 9007199254740992)"
    by (simp add: round_f64_eval [where e = "- 53"] round_half_even_def)
  have b19: "round_f64 0 = Fin 0"
    by (simp add: round_f64_eval [where e = "- 1074"] round_half_even_def)
  have b20: "round_f64 (1 / 9007199254740992) = Fin (1 / 9007199254740992)"
    by (simp add: round_f64_eval [where e = "- 105"] round_half_even_def)
  have e12: "EMA [Fin f64_seven_tenths, Fin f64_seven_tenths, Fin f64_seven_tenths] 12
       = [Fin (6305039478318693 / 9007199254740992), Fin (3152519739159347 / 4503599627370496), Fin (3152519739159347 / 4503599627370496)]"
    by (simp add: EMA_def Let_def f64_div_def f64_mul_def f64_sub_def f64_of_int_def wrap64_def
          f64_seven_tenths_def b0 b1 b2 b3 b4 b5 b6 b7 b8 b9 b10 b11 b12 b13 b14 b15 b16 b17 b18 b19 b20)
  have e26: "EMA [Fin f64_seven_tenths, Fin f64_seven_tenths, Fin f64_seven_tenths] 26
       = [Fin (6305039478318693 / 9007199254740992), Fin (6305039478318693 / 9007199254740992), Fin (6305039478318693 / 9007199254740992)]"
    by (simp add: EMA_def Let_def f64_div_def f64_mul_def f64_sub_def f64_of_int_def wrap64_def
          f64_seven_tenths_def b0 b1 b2 b3 b4 b5 b6 b7 b8 b9 b10 b11 b12 b13 b14 b15 b16 b17 b18 b19 b20)
  have m: "MACD [Fin f64_seven_tenths, Fin f64_seven_tenths, Fin f64_seven_tenths]
       = Some [Fin 0, Fin (1 / 2 ^ 53), Fin (1 / 2 ^ 53)]"
    unfolding MACD_def Let_def e12 e26
    by (simp add: go_index_def f64_sub_def upt_rec [of 0] upt_rec [of 1] upt_rec [of 2]
          b0 b1 b2 b3 b4 b5 b6 b7 b8 b9 b10 b11 b12 b13 b14 b15 b16 b17 b18 b19 b20)
  show ?thesis using t e s m by (simp add: f64_tenth_def)
qed

text \<open>
  C7, amended.  For every non-empty series whose values all equal \<open>v\<close>, where \<open>v\<close> is
  0 or of magnitude between \<open>2 ^ -900\<close> and \<open>2 ^ 900\<close>, and every period \<open>p\<close> with
  \<open>1 \<le> p \<le> 2 ^ 32\<close>, \<open>EMA\<close> returns a series of the same length whose every entry
  is finite and differs from \<open>v\<close> by at most \<open>4 (p + 1) 2 ^ -53 \<bar>v\<bar>\<close>, and \<open>MACD\<close>
  returns (without an out-of-range read) a series of that length whose every entry is
  finite and of magnitude at most \<open>161 * 2 ^ -53 \<bar>v\<bar>\<close>.  For \<open>v = 0\<close> both series
  are zero at every index.
\<close>

theorem EMA_MACD_constant_series_bound:
  assumes "prices \<noteq> []" and "\<forall>x\<in>set prices. x = Fin v" and "1 \<le> p" and "p \<le> 2 ^ 32"
    and "v = 0 \<or> (1 / 2 ^ 900 \<le> \<bar>v\<bar> \<and> \<bar>v\<bar> \<le> 2 ^ 900)"
  shows "length (EMA prices p) = length prices
       \<and> (\<forall>i<length prices. \<exists>y. EMA prices p ! i = Fin y
              \<and> \<bar>y - v\<bar> \<le> 4 * (of_int p + 1) / 2 ^ 53 * \<bar>v\<bar>)
       \<and> (\<exists>out. MACD prices = Some out \<and> length out = length prices
              \<and> (\<forall>i<length prices. \<exists>y. out ! i = Fin y \<and> \<bar>y\<bar> \<le> 161 / 2 ^ 53 * \<bar>v\<bar>))"
proof -
  define n where "n = length prices"
  have eq: "prices = replicate n (Fin v)"
    using assms(2) unfolding n_def by (simp add: replicate_length_same)
  have n: "0 < n" using assms(1) unfolding n_def by simp
  have l: "length (EMA prices p) = n"
    and e: "\<forall>y\<in>set (EMA prices p). \<exists>r. y = Fin (v * r) \<and> \<bar>r - 1\<bar> \<le> 4 * (of_int p + 1) / 2 ^ 53"
    using EMA_constant [OF assms(5) n assms(3) assms(4)] unfolding eq [symmetric] by simp_all
  have "\<exists>y. EMA prices p ! i = Fin y \<and> \<bar>y - v\<bar> \<le> 4 * (of_int p + 1) / 2 ^ 53 * \<bar>v\<bar>"
    if "i < n" for i
  proof -
    have "EMA prices p ! i \<in> set (EMA prices p)" using l that by simp
    then obtain r
      where r: "EMA prices p ! i = Fin (v * r)" "\<bar>r - 1\<bar> \<le> 4 * (of_int p + 1) / 2 ^ 53"
      using e by blast
    have "v * r - v = v * (r - 1)" by (simp add: algebra_simps)
    then have "\<bar>v * r - v\<bar> = \<bar>v\<bar> * \<bar>r - 1\<bar>" by (simp add: abs_mult)
    also have "\<dots> \<le> \<bar>v\<bar> * (4 * (of_int p + 1) / 2 ^ 53)"
      using r(2) by (intro mult_left_mono) auto
    finally show ?thesis using r(1) by (simp add: mult.commute)
  qed
  moreover have "\<exists>out. MACD prices = Some out \<and> length out = n
              \<and> (\<forall>i<n. \<exists>y. out ! i = Fin y \<and> \<bar>y\<bar> \<le> 161 / 2 ^ 53 * \<bar>v\<bar>)"
    using MACD_constant [OF assms(5), of n] unfolding eq [symmetric] .
  ultimately show ?thesis using l unfolding n_def by blast
qed

theorem EMA_MACD_constant_series_bound_witness:
  "[Fin 3, Fin 3, Fin 3] \<noteq> [] \<and> length (EMA [Fin 3, Fin 3, Fin 3] 2) = 3
   \<and> (\<exists>y. EMA [Fin 3, Fin 3, Fin 3] 2 ! 2 = Fin y
          \<and> \<bar>y - 3\<bar> \<le> 4 * (of_int 2 + 1) / 2 ^ 53 * \<bar>3\<bar>)
   \<and> (\<exists>out. MACD [Fin 3, Fin 3, Fin 3] = Some out \<and> length out = 3
          \<and> (\<exists>y. out ! 2 = Fin y \<and> \<bar>y\<bar> \<le> 161 / 2 ^ 53 * \<bar>3\<bar>))"
proof -
  have ne: "[Fin 3, Fin 3, Fin (3::real)] \<noteq> []" by simp
  have h: "\<forall>x\<in>set [Fin 3, Fin 3, Fin 3]. x = Fin 3" by simp
  have p: "(1::int) \<le> 2" "(2::int) \<le> 2 ^ 32" by simp_all
  have r: "(3::real) = 0 \<or> 1 / 2 ^ 900 \<le> \<bar>3::real\<bar> \<and> \<bar>3::real\<bar> \<le> 2 ^ 900" by simp
  have len: "length [Fin 3, Fin 3, Fin (3::real)] = 3" by simp
  note T = EMA_MACD_constant_series_bound [OF ne h p r, unfolded len]
  from T have a: "length (EMA [Fin 3, Fin 3, Fin 3] 2) = 3" by (rule conjunct1)
  have two: "(2::nat) < 3" by simp
  from T have "\<forall>i<3. \<exists>y. EMA [Fin 3, Fin 3, Fin 3] 2 ! i = Fin y
          \<and> \<bar>y - 3\<bar> \<le> 4 * (of_int 2 + 1) / 2 ^ 53 * \<bar>3\<bar>"
    by (rule conjunct1 [OF conjunct2])
  note b = this [rule_format, OF two]
  from T obtain out where o: "MACD [Fin 3, Fin 3, Fin 3] = Some out" "length out = 3"
    and "\<forall>i<3. \<exists>y. out ! i = Fin y \<and> \<bar>y\<bar> \<le> 161 / 2 ^ 53 * \<bar>3\<bar>"
    by blast
  note c = this(3) [rule_format, OF two]
  show ?thesis using ne a b c o by blast
qed

section \<open>Planner schedules\<close>




section \<open>Holdings reconciliation\<close>

lemma find_ListHoldings:
  assumes "find (\<lambda>h. h_Pair h = pr) (ListHoldings tbl) = Some e"
  shows "e \<in> set tbl \<and> h_Pair e = pr \<and> 0 < Quantity e"
proof -
  from assms have "e \<in> set (ListHoldings tbl)" "h_Pair e = pr"
    by (auto simp: find_Some_iff)
  then show ?thesis by (auto simp: ListHoldings_def)
qed

lemma holding_of_Upsert:
  assumes "e \<in> set tbl" "h_Pair e = h_Pair h"
  shows "\<exists>h'. holding_of (UpsertHolding tbl h) (h_Pair h) = Some h'
     \<and> Quantity h' = Quantity h \<and> AvgPrice h' = AvgPrice h \<and> TotalCost h' = TotalCost h
     \<and> Source h' = Source h \<and> h_Pair h' = h_Pair h"
proof -
  have ex: "\<exists>r\<in>set tbl. h_Pair r = h_Pair h" using assms by blast
  have "\<exists>r. find (\<lambda>x. h_Pair x = h_Pair h) tbl = Some r"
    using ex by (cases "find (\<lambda>x. h_Pair x = h_Pair h) tbl") (auto simp: find_None_iff)
  then obtain r where r: "find (\<lambda>x. h_Pair x = h_Pair h) tbl = Some r" by blast
  let ?f = "\<lambda>r. if h_Pair r = h_Pair h
                  then r\<lparr>Quantity := Quantity h, AvgPrice := AvgPrice h,
                         TotalCost := TotalCost h, Source := Source h,
                         UpdatedAt := UpdatedAt h\<rparr>
                  else r"
  have key: "find (\<lambda>x. h_Pair x = h_Pair h) (map ?f tbl) = map_option ?f (find (\<lambda>x. h_Pair x = h_Pair h) tbl)"
    by (induction tbl) auto
  have rp: "h_Pair r = h_Pair h" using r by (auto simp: find_Some_iff)
  show ?thesis
    unfolding holding_of_def UpsertHolding_def using ex key r rp by simp
qed

text \<open>
  C3.  An order with positive filled price and quantity (whatever its status, so in
  particular a filled or simulated-filled one) is applied to the holding \<open>e\<close> the store
  lists for its pair.  A long order stores quantity \<open>qty + filled_qty\<close>, cost
  \<open>cost + filled_qty * filled_price\<close> and their quotient as average, so the cost grows by
  exactly \<open>filled_qty * filled_price\<close>.  A close order of less than the held quantity
  stores the remaining quantity and leaves the average price of a holding whose average
  is its cost per unit unchanged.  A close order of at least the held quantity stores
  quantity, cost and average 0.
\<close>

theorem UpdateHoldingAfterTrade_algebra:
  fixes tbl :: "Holding list" and now :: nat and order :: Order and e :: Holding
  defines "fq \<equiv> FilledQuantity order"
    and "fp \<equiv> FilledPrice order"
    and "after \<equiv> holding_of (UpdateHoldingAfterTrade tbl now order) (ord_Pair order)"
  assumes ex: "find (\<lambda>h. h_Pair h = ord_Pair order) (ListHoldings tbl) = Some e"
    and pos: "0 < fp" "0 < fq"
  shows "(ord_Side order = SideLong \<longrightarrow>
           (\<exists>h'. after = Some h' \<and> Quantity h' = Quantity e + fq
                \<and> TotalCost h' = TotalCost e + fq * fp
                \<and> AvgPrice h' = TotalCost h' / Quantity h'
                \<and> TotalCost h' - TotalCost e = fq * fp))
       \<and> (ord_Side order = SideClose \<and> fq < Quantity e \<longrightarrow>
           (\<exists>h'. after = Some h' \<and> Quantity h' = Quantity e - fq
                \<and> TotalCost h' = TotalCost e * (1 - fq / Quantity e)
                \<and> (AvgPrice e * Quantity e = TotalCost e \<longrightarrow> AvgPrice h' = AvgPrice e)))
       \<and> (ord_Side order = SideClose \<and> Quantity e \<le> fq \<longrightarrow>
           (\<exists>h'. after = Some h' \<and> Quantity h' = 0 \<and> TotalCost h' = 0 \<and> AvgPrice h' = 0))"
proof -
  from find_ListHoldings [OF ex]
  have mem: "e \<in> set tbl" and pr: "h_Pair e = ord_Pair order" and q: "0 < Quantity e"
    by simp_all
  have ne: "SideClose \<noteq> SideLong" by (simp add: SideClose_def SideLong_def)
  have long: ?thesis if sd: "ord_Side order = SideLong"
  proof -
    let ?h = "\<lparr>h_ID = 0, h_Pair = ord_Pair order, Symbol = base_symbol (ord_Pair order),
               Quantity = Quantity e + fq, AvgPrice = (TotalCost e + fq * fp) / (Quantity e + fq),
               TotalCost = TotalCost e + fq * fp, Source = ''local'', UpdatedAt = now\<rparr>"
    have upd: "UpdateHoldingAfterTrade tbl now order = UpsertHolding tbl ?h"
      using sd ex pos unfolding UpdateHoldingAfterTrade_def fq_def fp_def by (simp add: Let_def)
    from holding_of_Upsert [of e tbl ?h] mem pr
    obtain h' where h': "holding_of (UpsertHolding tbl ?h) (ord_Pair order) = Some h'"
      "Quantity h' = Quantity e + fq" "TotalCost h' = TotalCost e + fq * fp"
      "AvgPrice h' = (TotalCost e + fq * fp) / (Quantity e + fq)"
      by auto
    show ?thesis using sd ne h' unfolding after_def upd by auto
  qed
  have part: ?thesis if sd: "ord_Side order = SideClose" and lt: "fq < Quantity e"
  proof -
    let ?c = "TotalCost e * (1 - fq / Quantity e)"
    let ?h = "\<lparr>h_ID = 0, h_Pair = ord_Pair order, Symbol = base_symbol (ord_Pair order),
               Quantity = Quantity e - fq, AvgPrice = ?c / (Quantity e - fq),
               TotalCost = ?c, Source = ''local'', UpdatedAt = now\<rparr>"
    have r: "\<not> 1 < fq / Quantity e" using lt q by simp
    have upd: "UpdateHoldingAfterTrade tbl now order = UpsertHolding tbl ?h"
      using sd ne ex pos lt r unfolding UpdateHoldingAfterTrade_def fq_def fp_def
      by (simp add: Let_def)
    from holding_of_Upsert [of e tbl ?h] mem pr
    obtain h' where h': "holding_of (UpsertHolding tbl ?h) (ord_Pair order) = Some h'"
      "Quantity h' = Quantity e - fq" "TotalCost h' = ?c"
      "AvgPrice h' = ?c / (Quantity e - fq)"
      by auto
    have avg: "?c / (Quantity e - fq) = AvgPrice e" if "AvgPrice e * Quantity e = TotalCost e"
    proof -
      have "?c = AvgPrice e * (Quantity e - fq)"
        using q that [symmetric] by (simp add: field_simps)
      then show ?thesis using lt by simp
    qed
    show ?thesis using sd ne lt h' avg unfolding after_def upd by auto
  qed
  have full: ?thesis if sd: "ord_Side order = SideClose" and ge: "Quantity e \<le> fq"
  proof -
    let ?r = "if 1 < fq / Quantity e then 1 else fq / Quantity e"
    let ?h = "\<lparr>h_ID = 0, h_Pair = ord_Pair order, Symbol = base_symbol (ord_Pair order),
               Quantity = 0, AvgPrice = 0,
               TotalCost = 0, Source = ''local'', UpdatedAt = now\<rparr>"
    have r: "?r = 1" using ge q by (simp add: field_simps)
    have n: "\<not> 0 < Quantity e - fq" "Quantity e - fq < 0 \<or> Quantity e - fq = 0"
      using ge by auto
    have upd: "UpdateHoldingAfterTrade tbl now order = UpsertHolding tbl ?h"
      using sd ne ex pos n r [unfolded fq_def] unfolding UpdateHoldingAfterTrade_def fq_def fp_def
      by (auto simp: Let_def)
    from holding_of_Upsert [of e tbl ?h] mem pr
    obtain h' where h': "holding_of (UpsertHolding tbl ?h) (ord_Pair order) = Some h'"
      "Quantity h' = 0" "TotalCost h' = 0" "AvgPrice h' = 0"
      by auto
    show ?thesis using sd ne ge h' unfolding after_def upd by auto
  qed
  show ?thesis
  proof (cases "ord_Side order = SideLong")
    case True then show ?thesis by (rule long)
  next
    case nl: False
    show ?thesis
    proof (cases "ord_Side order = SideClose")
      case True
      then show ?thesis using part full by (cases "fq < Quantity e") auto
    next
      case False
      then show ?thesis using nl by simp
    qed
  qed
qed

theorem UpdateHoldingAfterTrade_algebra_witness:
  "(\<exists>h'. holding_of (UpdateHoldingAfterTrade demo_holdings 7 (demo_order SideLong (2 / 10) 100))
            ''DOGE/USDT'' = Some h'
        \<and> Quantity h' = 600 \<and> TotalCost h' = 70 \<and> AvgPrice h' = 70 / 600)
   \<and> (\<exists>h'. holding_of (UpdateHoldingAfterTrade demo_holdings 7 (demo_order SideClose (2 / 10) 100))
            ''DOGE/USDT'' = Some h'
        \<and> Quantity h' = 400 \<and> TotalCost h' = 40 \<and> AvgPrice h' = 1 / 10)
   \<and> (\<exists>h'. holding_of (UpdateHoldingAfterTrade demo_holdings 7 (demo_order SideClose (2 / 10) 600))
            ''DOGE/USDT'' = Some h'
        \<and> Quantity h' = 0 \<and> TotalCost h' = 0 \<and> AvgPrice h' = 0)"
proof -
  have ex: "find (\<lambda>h. h_Pair h = ord_Pair (demo_order sd (2 / 10) q)) (ListHoldings demo_holdings)
      = Some (hd demo_holdings)" for sd q
    by (simp add: demo_order_def demo_holdings_def ListHoldings_def)
  have p: "0 < FilledPrice (demo_order sd (2 / 10) q)" for sd q
    by (simp add: demo_order_def)
  have q1: "0 < FilledQuantity (demo_order sd (2 / 10) 100)" for sd
    by (simp add: demo_order_def)
  have q6: "0 < FilledQuantity (demo_order sd (2 / 10) 600)" for sd
    by (simp add: demo_order_def)
  show ?thesis
    using UpdateHoldingAfterTrade_algebra
        [OF ex [of SideLong 100] p [of SideLong 100] q1 [of SideLong], where now = 7]
      UpdateHoldingAfterTrade_algebra
        [OF ex [of SideClose 100] p [of SideClose 100] q1 [of SideClose], where now = 7]
      UpdateHoldingAfterTrade_algebra
        [OF ex [of SideClose 600] p [of SideClose 600] q6 [of SideClose], where now = 7]
    by (auto simp: demo_order_def demo_holdings_def SideLong_def SideClose_def)
qed

section \<open>Sanitizer: one pass against two\<close>

lemma replace_no_key: "\<not> has_key pairs s \<Longrightarrow> replace_all_keys pairs s = s"
  by (induction s) (auto split: option.splits)

lemma lookup_key_Some:
  assumes "lookup_key pairs s = Some kv"
  shows "kv \<in> set pairs \<and> take (length (fst kv)) s = fst kv"
  using assms unfolding lookup_key_def by (auto simp: find_Some_iff)

lemma differ_early_append:
  assumes "differ_early old new"
  shows "new @ xs \<noteq> old @ ys"
proof -
  from assms obtain i where i: "i < length old" "i < length new" "old ! i \<noteq> new ! i"
    unfolding differ_early_def by (auto simp: list_ex_iff)
  have "(new @ xs) ! i = new ! i" "(old @ ys) ! i = old ! i"
    using i by (simp_all add: nth_append)
  then show ?thesis using i(3) by metis
qed

lemma replace_has_key:
  assumes d: "\<forall>kv\<in>set pairs. differ_early (fst kv) (snd kv)"
  shows "has_key pairs s \<Longrightarrow> replace_all_keys pairs s \<noteq> s"
proof (induction s)
  case Nil
  then show ?case by simp
next
  case (Cons c cs)
  show ?case
  proof (cases "lookup_key pairs (c # cs)")
    case None
    then show ?thesis using Cons by simp
  next
    case (Some kv)
    from lookup_key_Some [OF Some]
    have kv: "kv \<in> set pairs" and pre: "take (length (fst kv)) (c # cs) = fst kv" by simp_all
    have split: "c # cs = fst kv @ drop (length (fst kv)) (c # cs)"
      using pre append_take_drop_id [of "length (fst kv)" "c # cs"] by simp
    have "snd kv @ replace_all_keys pairs (drop (length (fst kv) - 1) cs)
          \<noteq> fst kv @ drop (length (fst kv)) (c # cs)"
      using differ_early_append d kv by blast
    then show ?thesis using Some split by simp
  qed
qed

lemma subst_clean: "list_all (\<lambda>kv. \<not> has_key sanitize_pairs (snd kv)) sanitize_pairs"
  by code_simp

lemma pairs_differ: "list_all (\<lambda>kv. differ_early (fst kv) (snd kv)) sanitize_pairs"
  by code_simp

text \<open>
  C8 as stated, refuted: the title \<open>hackerror\<close> is sanitized to
  \<open>security incidenterror\<close>, which contains the key \<open>terror\<close>; a second pass
  changes it again.
\<close>

theorem sanitize_not_idempotent:
  "sanitizeNewsTitle (sanitizeNewsTitle ''hackerror'') \<noteq> sanitizeNewsTitle ''hackerror''"
  by (simp add: sanitizeNewsTitle_def sanitize_pairs_def lookup_key_def)

text \<open>
  C8, amended.  A second pass returns the result of the first exactly when the
  once-sanitized title contains none of the replaced terms.  No substitute contains a
  replaced term: the sanitizer leaves each substitute unchanged.
\<close>

theorem sanitize_twice:
  "(sanitizeNewsTitle (sanitizeNewsTitle t) = sanitizeNewsTitle t
      \<longleftrightarrow> \<not> has_key sanitize_pairs (sanitizeNewsTitle t))
   \<and> list_all (\<lambda>kv. sanitizeNewsTitle (snd kv) = snd kv) sanitize_pairs"
proof -
  have d: "\<forall>kv\<in>set sanitize_pairs. differ_early (fst kv) (snd kv)"
    using pairs_differ by (simp add: list_all_iff)
  have a: "sanitizeNewsTitle (sanitizeNewsTitle t) = sanitizeNewsTitle t
      \<longleftrightarrow> \<not> has_key sanitize_pairs (sanitizeNewsTitle t)"
    unfolding sanitizeNewsTitle_def
    using replace_no_key [of sanitize_pairs "replace_all_keys sanitize_pairs t"]
      replace_has_key [OF d, of "replace_all_keys sanitize_pairs t"]
    by blast
  have b: "list_all (\<lambda>kv. sanitizeNewsTitle (snd kv) = snd kv) sanitize_pairs"
    using subst_clean unfolding sanitizeNewsTitle_def list_all_iff
    by (auto intro: replace_no_key)
  show ?thesis using a b by simp
qed

theorem sanitize_twice_witness:
  "\<not> has_key sanitize_pairs (sanitizeNewsTitle ''Bitcoin Hack'')
   \<and> sanitizeNewsTitle (sanitizeNewsTitle ''Bitcoin Hack'') = sanitizeNewsTitle ''Bitcoin Hack''
   \<and> sanitizeNewsTitle ''Bitcoin Hack'' = ''Bitcoin Security Incident''"
proof -
  have v: "sanitizeNewsTitle ''Bitcoin Hack'' = ''Bitcoin Security Incident''"
    by code_simp
  have n: "\<not> has_key sanitize_pairs ''Bitcoin Security Incident''"
    by code_simp
  show ?thesis
    using sanitize_twice [of "''Bitcoin Hack''"] n unfolding v by simp
qed

section \<open>Paging of the cycle list\<close>








section \<open>Failure policy of the signal agent\<close>

lemma utf8_nonempty: "utf8 (b # bs) \<noteq> []"
  by (simp add: utf8_def)

text \<open>
  C6.  Whenever the LLM path fails (the model call returns an error, the reply has no
  choice, or the text of the first choice cannot be parsed), \<open>Generate\<close> returns no
  error and a signal with side none, confidence 0 and model name \<open>fallback\<close>, whose
  reason is the operator-facing prefix followed by a non-empty explanation.
\<close>

theorem signal_Generate_failure_policy:
  assumes "llm_path_fails unmarshal reply"
  shows "snd (signal_Generate a unmarshal new_id now reply input) = None
     \<and> sig_Side (fst (signal_Generate a unmarshal new_id now reply input)) = SideNone
     \<and> sig_Confidence (fst (signal_Generate a unmarshal new_id now reply input)) = 0
     \<and> sig_ModelName (fst (signal_Generate a unmarshal new_id now reply input)) = ''fallback''
     \<and> msg_fallback_prefix \<noteq> []
     \<and> take (length msg_fallback_prefix)
          (sig_Reason (fst (signal_Generate a unmarshal new_id now reply input)))
        = msg_fallback_prefix
     \<and> length msg_fallback_prefix
        < length (sig_Reason (fst (signal_Generate a unmarshal new_id now reply input)))"
proof -
  have tr: "trimReason r \<noteq> []" for r
    by (auto simp: trimReason_def Let_def msg_no_reason_def utf8_nonempty)
  have pre: "msg_fallback_prefix \<noteq> []"
    by (simp add: msg_fallback_prefix_def utf8_nonempty)
  have "\<exists>r. signal_Generate a unmarshal new_id now reply input
            = fallbackGenerate new_id now input r"
  proof (cases reply)
    case (LLMError e)
    then show ?thesis by (auto simp: signal_Generate_def)
  next
    case (LLMChoices cs)
    show ?thesis
    proof (cases cs)
      case Nil
      then show ?thesis using LLMChoices by (auto simp: signal_Generate_def)
    next
      case (Cons c rest)
      then have "isl (parseLLMOutput unmarshal (Content c))"
        using assms LLMChoices by (simp add: llm_path_fails_def)
      then obtain e where "parseLLMOutput unmarshal (Content c) = Inl e"
        by (cases "parseLLMOutput unmarshal (Content c)") simp_all
      then show ?thesis
        using LLMChoices Cons by (auto simp: signal_Generate_def Let_def)
    qed
  qed
  then obtain r where "signal_Generate a unmarshal new_id now reply input
            = fallbackGenerate new_id now input r" by blast
  then show ?thesis
    using tr [of r] pre by (simp add: fallbackGenerate_def)
qed

theorem signal_Generate_failure_policy_witness:
  "llm_path_fails reject_all (LLMError ''timeout'')
   \<and> sig_ModelName (fst (signal_Generate demo_llm_agent reject_all ''id1'' 0 (LLMError ''timeout'') demo_signal_input)) = ''fallback''
   \<and> llm_path_fails reject_all (LLMChoices [])
   \<and> sig_Side (fst (signal_Generate demo_llm_agent reject_all ''id1'' 0 (LLMChoices []) demo_signal_input)) = SideNone
   \<and> llm_path_fails reject_all (LLMChoices [\<lparr>Content = ''I cannot say'', GenerationInfo = None\<rparr>])
   \<and> sig_Confidence (fst (signal_Generate demo_llm_agent reject_all ''id1'' 0
         (LLMChoices [\<lparr>Content = ''I cannot say'', GenerationInfo = None\<rparr>]) demo_signal_input)) = 0"
proof -
  have f1: "llm_path_fails reject_all (LLMError ''timeout'')"
    by (simp add: llm_path_fails_def)
  have f2: "llm_path_fails reject_all (LLMChoices [])"
    by (simp add: llm_path_fails_def)
  have f3: "llm_path_fails reject_all (LLMChoices [\<lparr>Content = ''I cannot say'', GenerationInfo = None\<rparr>])"
    by (simp add: llm_path_fails_def parseLLMOutput_def reject_all_def Let_def find_json_object_def TrimSpace_def is_space_def)
  show ?thesis
    using signal_Generate_failure_policy [OF f1, of demo_llm_agent "''id1''" 0 demo_signal_input]
      signal_Generate_failure_policy [OF f2, of demo_llm_agent "''id1''" 0 demo_signal_input]
      signal_Generate_failure_policy [OF f3, of demo_llm_agent "''id1''" 0 demo_signal_input]
      f1 f2 f3
    by simp
qed

section \<open>Sizing of a futures open\<close>















section \<open>Dry-run execution\<close>

lemma dry_run_price_requests: "list_all (\<lambda>req. \<not> is_order_request req) (snd (dry_run_price w url hint))"
  by (simp add: dry_run_price_def)

lemma dry_run_price_none:
  "no_positive_price w url hint \<Longrightarrow> fst (dry_run_price w url hint) = hint"
  by (auto simp: dry_run_price_def no_positive_price_def split: ticker_reply.splits)

text \<open>
  C10 as stated, refuted in its last clause: in dry-run mode a long input with the hint
  \<open>-1\<close> and a failing ticker (no positive price can be obtained) is returned as a
  simulated fill whose filled price is \<open>-1\<close>, not 0.
\<close>

theorem dry_run_negative_hint:
  "dryRun (demo_spot True [])
   \<and> ei_Side (demo_exec_input ''DOGE/USDT'' SideLong 50 (- 1) 0) = SideLong
   \<and> no_positive_price demo_world (spot_ticker_url ''DOGE/USDT'') (- 1)
   \<and> ord_Status (result_order (spot_Execute (demo_spot True []) demo_world
        (demo_exec_input ''DOGE/USDT'' SideLong 50 (- 1) 0))) = ''simulated_filled''
   \<and> FilledPrice (result_order (spot_Execute (demo_spot True []) demo_world
        (demo_exec_input ''DOGE/USDT'' SideLong 50 (- 1) 0))) = - 1"
  by (simp add: demo_spot_def demo_exec_input_def demo_world_def no_positive_price_def
        spot_Execute_def Let_def result_order_def dry_run_price_def new_order_def)

text \<open>
  C10, amended.  In dry-run mode both executors return no error and an order with status
  \<open>simulated_filled\<close>, and send no order request (at most the public price request),
  whatever the credentials.  If no positive price can be obtained for a long, the filled
  price is the estimated fill as supplied (0 when that is 0) and the filled quantity is
  the sell quantity when that is positive and 0 otherwise.
\<close>

theorem dry_run_total:
  fixes e :: BinanceExecutor and f :: BinanceFuturesExecutor and w :: world and input :: ExecInput
  defines "S \<equiv> spot_Execute e w input" and "F \<equiv> futures_Execute f w input"
    and "fallback_qty \<equiv> (if 0 < SellQuantity input then SellQuantity input else 0)"
  shows "(dryRun e \<longrightarrow>
            result_error S = None \<and> ord_Status (result_order S) = ''simulated_filled''
            \<and> list_all (\<lambda>req. \<not> is_order_request req) (requests_sent S)
            \<and> (ei_Side input = SideLong
                 \<and> no_positive_price w (spot_ticker_url (ei_Pair input)) (EstimatedFill input) \<longrightarrow>
                FilledPrice (result_order S) = EstimatedFill input
                \<and> FilledQuantity (result_order S) = fallback_qty))
       \<and> (dryRun f \<longrightarrow>
            result_error F = None \<and> ord_Status (result_order F) = ''simulated_filled''
            \<and> list_all (\<lambda>req. \<not> is_order_request req) (requests_sent F)
            \<and> (ei_Side input = SideLong
                 \<and> no_positive_price w (futures_ticker_url f (ei_Pair input)) (EstimatedFill input) \<longrightarrow>
                FilledPrice (result_order F) = EstimatedFill input
                \<and> FilledQuantity (result_order F) = fallback_qty))"
proof -
  have s: "result_error S = None \<and> ord_Status (result_order S) = ''simulated_filled''
            \<and> list_all (\<lambda>req. \<not> is_order_request req) (requests_sent S)" if "dryRun e"
    using that dry_run_price_requests
    unfolding S_def
    by (simp add: spot_Execute_def Let_def result_error_def result_order_def requests_sent_def)
  have s2: "FilledPrice (result_order S) = EstimatedFill input
                \<and> FilledQuantity (result_order S) = fallback_qty"
    if "dryRun e" "ei_Side input = SideLong"
      "no_positive_price w (spot_ticker_url (ei_Pair input)) (EstimatedFill input)"
  proof -
    have "\<not> 0 < EstimatedFill input" using that(3) by (simp add: no_positive_price_def)
    then show ?thesis
      using that(1) dry_run_price_none [OF that(3)]
      unfolding S_def fallback_qty_def spot_ticker_url_def
      by (simp add: spot_Execute_def Let_def result_order_def)
  qed
  have f: "result_error F = None \<and> ord_Status (result_order F) = ''simulated_filled''
            \<and> list_all (\<lambda>req. \<not> is_order_request req) (requests_sent F)" if "dryRun f"
    using that dry_run_price_requests
    unfolding F_def
    by (simp add: futures_Execute_def Let_def result_error_def result_order_def requests_sent_def)
  have f2: "FilledPrice (result_order F) = EstimatedFill input
                \<and> FilledQuantity (result_order F) = fallback_qty"
    if "dryRun f" "ei_Side input = SideLong"
      "no_positive_price w (futures_ticker_url f (ei_Pair input)) (EstimatedFill input)"
  proof -
    have "\<not> 0 < EstimatedFill input" using that(3) by (simp add: no_positive_price_def)
    then show ?thesis
      using that(1) dry_run_price_none [OF that(3)]
      unfolding F_def fallback_qty_def futures_ticker_url_def
      by (simp add: futures_Execute_def Let_def result_order_def)
  qed
  show ?thesis using s s2 f f2 by blast
qed

theorem dry_run_total_witness:
  "dryRun (demo_spot True [])
   \<and> dryRun (demo_futures\<lparr>dryRun := True, apiKey := [], secretKey := []\<rparr>)
   \<and> ei_Side (demo_exec_input ''DOGE/USDT'' SideLong 50 0 0) = SideLong
   \<and> no_positive_price demo_world (spot_ticker_url ''DOGE/USDT'') 0
   \<and> result_error (spot_Execute (demo_spot True []) demo_world
        (demo_exec_input ''DOGE/USDT'' SideLong 50 0 0)) = None
   \<and> ord_Status (result_order (spot_Execute (demo_spot True []) demo_world
        (demo_exec_input ''DOGE/USDT'' SideLong 50 0 0))) = ''simulated_filled''
   \<and> FilledPrice (result_order (spot_Execute (demo_spot True []) demo_world
        (demo_exec_input ''DOGE/USDT'' SideLong 50 0 0))) = 0
   \<and> FilledQuantity (result_order (spot_Execute (demo_spot True []) demo_world
        (demo_exec_input ''DOGE/USDT'' SideLong 50 0 0))) = 0
   \<and> ord_Status (result_order (futures_Execute
        (demo_futures\<lparr>dryRun := True, apiKey := [], secretKey := []\<rparr>) demo_world
        (demo_exec_input ''DOGE/USDT'' SideLong 50 0 0))) = ''simulated_filled''
   \<and> FilledQuantity (result_order (futures_Execute
        (demo_futures\<lparr>dryRun := True, apiKey := [], secretKey := []\<rparr>) demo_world
        (demo_exec_input ''DOGE/USDT'' SideLong 50 0 0))) = 0"
proof -
  have n: "no_positive_price demo_world url 0" for url
    by (simp add: no_positive_price_def demo_world_def)
  show ?thesis
    using dry_run_total [of "demo_spot True []" demo_world
        "demo_exec_input ''DOGE/USDT'' SideLong 50 0 0"
        "demo_futures\<lparr>dryRun := True, apiKey := [], secretKey := []\<rparr>"] n
    by (simp add: demo_spot_def demo_futures_def demo_exec_input_def)
qed

section \<open>Dust holdings in live spot mode\<close>

text \<open>
  C4, at the input where the code departs from it: a live spot sell of 0.5 XRP.  Floored
  to one decimal the quantity is 0.5, below the minimum quantity 1 of the instrument, yet
  the executor does not reject: it sends one order request with quantity \<open>0.5\<close>.
\<close>

theorem spot_dust_xrp_sent:
  "\<not> dryRun (demo_spot False ''key'')
   \<and> ei_Side (demo_exec_input ''XRP/USDT'' SideClose 0 0 (1 / 2)) = SideClose
   \<and> 0 < SellQuantity (demo_exec_input ''XRP/USDT'' SideClose 0 0 (1 / 2))
   \<and> ParseFloat64 (quantityPrecision ''XRPUSDT'' (Fin (1 / 2))) = Fin (1 / 2)
   \<and> getMinQuantity ''XRPUSDT'' = 1
   \<and> ord_Status (result_order (spot_Execute (demo_spot False ''key'') demo_world
        (demo_exec_input ''XRP/USDT'' SideClose 0 0 (1 / 2)))) = ''created''
   \<and> result_error (spot_Execute (demo_spot False ''key'') demo_world
        (demo_exec_input ''XRP/USDT'' SideClose 0 0 (1 / 2))) = None
   \<and> map (\<lambda>req. (is_order_request req, get_param (request_params req) ''quantity''))
        (requests_sent (spot_Execute (demo_spot False ''key'') demo_world
          (demo_exec_input ''XRP/USDT'' SideClose 0 0 (1 / 2)))) = [(True, Some ''0.5'')]"
proof -
  have sy: "pairToSymbol ''XRP/USDT'' = ''XRPUSDT''" by code_simp
  have up: "ToUpper ''XRPUSDT'' = ''XRPUSDT''" by code_simp
  have h: "\<not> HasPrefix ''XRPUSDT'' ''DOGE''" "HasPrefix ''XRPUSDT'' ''XRP''" by code_simp+
  have x0: "round_f64 5 = Fin 5"
    by (simp add: round_f64_eval [where e = "- 50"] round_half_even_def)
  have x1: "round_f64 (1 / 2) = Fin (1 / 2)"
    by (simp add: round_f64_eval [where e = "- 53"] round_half_even_def)
  have q: "quantityPrecision ''XRPUSDT'' (Fin (1 / 2))
           = Digits \<lparr>negative = False, magnitude = 5, decimals = 1\<rparr>"
    unfolding quantityPrecision_def Let_def up
    by (simp add: h f64_mul_def f64_div_def FormatFloat_f_def round_half_even_def
          x0 x1)
  have r: "render \<lparr>negative = False, magnitude = 5, decimals = 1\<rparr> = ''0.5''"
    by code_simp
  have m: "getMinQuantity ''XRPUSDT'' = 1" by code_simp
  have pq: "ParseFloat64 (quantityPrecision ''XRPUSDT'' (Fin (1 / 2))) = Fin (1 / 2)"
    unfolding q by (simp add: ParseFloat_def x0 x1)
  have rq: "render_printed (quantityPrecision ''XRPUSDT'' (Fin (1 / 2))) = ''0.5''"
    by (simp only: q render_printed.simps r)
  show ?thesis
    by (simp add: demo_spot_def demo_exec_input_def demo_world_def spot_Execute_def Let_def
          result_order_def result_error_def requests_sent_def new_order_def sy pq rq m
          SideClose_def get_param_def)
qed

section \<open>Further properties\<close>

lemma Upsert_consistent:
  assumes "consistent_holding h" "list_all consistent_holding tbl"
  shows "list_all consistent_holding (UpsertHolding tbl h)"
  using assms
  by (auto simp: UpsertHolding_def consistent_holding_def list_all_iff)

text \<open>
  Every row \<open>UpdateHoldingAfterTrade\<close> writes has its average price equal to its cost
  per unit, so a table of such holdings stays one.
\<close>

theorem UpdateHoldingAfterTrade_consistent:
  assumes "list_all consistent_holding tbl"
  shows "list_all consistent_holding (UpdateHoldingAfterTrade tbl now order)"
proof (cases "FilledPrice order \<le> 0 \<or> FilledQuantity order \<le> 0")
  case True
  then show ?thesis using assms by (auto simp: UpdateHoldingAfterTrade_def)
next
  case False
  then have pos: "0 < FilledPrice order" "0 < FilledQuantity order" by auto
  show ?thesis
  proof (cases "find (\<lambda>h. h_Pair h = ord_Pair order) (ListHoldings tbl)")
    case None
    then show ?thesis
      using assms pos
      by (auto simp: UpdateHoldingAfterTrade_def Let_def consistent_holding_def
               intro!: Upsert_consistent)
  next
    case (Some e)
    from find_ListHoldings [OF Some] have q: "0 < Quantity e" by simp
    have c: "consistent_holding
               \<lparr>h_ID = 0, h_Pair = ord_Pair order, Symbol = base_symbol (ord_Pair order),
                Quantity = (if Quantity e - FilledQuantity order < 0 then 0
                            else Quantity e - FilledQuantity order),
                AvgPrice = (if 0 < (if Quantity e - FilledQuantity order < 0 then 0
                                    else Quantity e - FilledQuantity order)
                            then TotalCost e * (1 - (if 1 < FilledQuantity order / Quantity e then 1
                                                     else FilledQuantity order / Quantity e))
                                 / (if Quantity e - FilledQuantity order < 0 then 0
                                    else Quantity e - FilledQuantity order)
                            else 0),
                TotalCost = TotalCost e * (1 - (if 1 < FilledQuantity order / Quantity e then 1
                                                else FilledQuantity order / Quantity e)),
                Source = ''local'', UpdatedAt = now\<rparr>"
      using q pos by (auto simp: consistent_holding_def field_simps)
    have l: "consistent_holding
               \<lparr>h_ID = 0, h_Pair = ord_Pair order, Symbol = base_symbol (ord_Pair order),
                Quantity = Quantity e + FilledQuantity order,
                AvgPrice = (TotalCost e + FilledQuantity order * FilledPrice order)
                           / (Quantity e + FilledQuantity order),
                TotalCost = TotalCost e + FilledQuantity order * FilledPrice order,
                Source = ''local'', UpdatedAt = now\<rparr>"
      using q pos by (simp add: consistent_holding_def)
    show ?thesis
      using assms pos Some Upsert_consistent [OF c assms] Upsert_consistent [OF l assms]
      by (simp add: UpdateHoldingAfterTrade_def Let_def)
  qed
qed

theorem UpdateHoldingAfterTrade_consistent_witness:
  "list_all consistent_holding demo_holdings
   \<and> list_all consistent_holding
       (UpdateHoldingAfterTrade demo_holdings 7 (demo_order SideClose (2 / 10) 100))"
proof -
  have c: "list_all consistent_holding demo_holdings"
    by (simp add: demo_holdings_def consistent_holding_def)
  show ?thesis
    using UpdateHoldingAfterTrade_consistent [OF c, of 7 "demo_order SideClose (2 / 10) 100"] c
    by simp
qed

end
